theory Spec2Isabelle
  imports Main "HOL-Library.Word"
begin

unbundle bit_operations_syntax

section \<open>Register-bank primitives\<close>

text \<open>
  A register bank of the device (\<open>uint8_t cpmac0[0x800]\<close>, \<open>uint8_t vlynq0[0x100]\<close>, ...)
  is a byte array indexed by its byte offset.  The 32-bit accessors of \<open>hw/ar7.c\<close> load
  and store little-endian words through it.
\<close>

type_synonym regbank = "nat \<Rightarrow> 8 word"

datatype error = Assertion_failed | Buffer_overflow | Loop_forever

definition le32_to_cpu :: "8 word \<Rightarrow> 8 word \<Rightarrow> 8 word \<Rightarrow> 8 word \<Rightarrow> 32 word" where
  "le32_to_cpu b0 b1 b2 b3 =
     ucast b0 OR push_bit 8 (ucast b1) OR push_bit 16 (ucast b2) OR push_bit 24 (ucast b3)"

definition cpu_to_le32 :: "32 word \<Rightarrow> nat \<Rightarrow> 8 word" where
  "cpu_to_le32 v k = ucast (drop_bit (8 * k) v)"

text \<open>\<open>reg_read\<close> only logs a misaligned offset and then loads from it all the same.\<close>

definition reg_read :: "regbank \<Rightarrow> nat \<Rightarrow> 32 word" where
  "reg_read reg addr = le32_to_cpu (reg addr) (reg (addr + 1)) (reg (addr + 2)) (reg (addr + 3))"

text \<open>
  \<open>reg_write\<close>, \<open>reg_inc\<close>, \<open>reg_clear\<close> and \<open>reg_set\<close> start with
  \<open>assert(!(addr & 3))\<close>.  Every call in the file passes either an aligned constant or
  the offset of the enclosing handler; the handlers below carry the assertion for their
  own offset, so the primitives here are the stores themselves.
\<close>

definition reg_write :: "regbank \<Rightarrow> nat \<Rightarrow> 32 word \<Rightarrow> regbank" where
  "reg_write reg addr v =
     reg(addr := cpu_to_le32 v 0, addr + 1 := cpu_to_le32 v 1,
         addr + 2 := cpu_to_le32 v 2, addr + 3 := cpu_to_le32 v 3)"

definition reg_inc :: "regbank \<Rightarrow> nat \<Rightarrow> regbank" where
  "reg_inc reg addr = reg_write reg addr (reg_read reg addr + 1)"

definition reg_clear :: "regbank \<Rightarrow> nat \<Rightarrow> 32 word \<Rightarrow> regbank" where
  "reg_clear reg addr v = reg_write reg addr (reg_read reg addr AND NOT v)"

definition reg_set :: "regbank \<Rightarrow> nat \<Rightarrow> 32 word \<Rightarrow> regbank" where
  "reg_set reg addr v = reg_write reg addr (reg_read reg addr OR v)"

lemma le32_bytes:
  "le32_to_cpu (cpu_to_le32 v 0) (cpu_to_le32 v (Suc 0)) (cpu_to_le32 v 2) (cpu_to_le32 v 3) = v"
  unfolding le32_to_cpu_def cpu_to_le32_def
proof (rule bit_word_eqI)
  fix n :: nat
  assume "n < LENGTH(32)"
  then have "n < 8 \<or> (8 \<le> n \<and> n < 16) \<or> (16 \<le> n \<and> n < 24) \<or> (24 \<le> n \<and> n < 32)"
    by auto
  then show "bit (ucast (ucast (drop_bit (8 * 0) v) :: 8 word) OR
                  push_bit 8 (ucast (ucast (drop_bit (8 * Suc 0) v) :: 8 word)) OR
                  push_bit 16 (ucast (ucast (drop_bit (8 * 2) v) :: 8 word)) OR
                  push_bit 24 (ucast (ucast (drop_bit (8 * 3) v) :: 8 word)) :: 32 word) n = bit v n"
    by (auto simp add: bit_simps)
qed


section \<open>Device state\<close>

text \<open>
  The state of the device is the global \<open>avalanche_t av\<close> together with the file's other
  static variables (the MDIO latches and the PHY register file) and the parts of the
  machine the handlers reach: the two CPU fields \<open>ar7_irq\<close> touches, guest physical
  memory, and the frames handed to the network backends.  Register banks that no handler
  below reads or writes (ADSL, EMIF, GPIO, clock, timers, ...) are left out.
\<close>

datatype log_event = UNEXPECTED | MISSING

record avalanche_t =
  CP0_Cause :: "32 word"                      \<comment> \<open>\<open>cpu_env->CP0_Cause\<close>\<close>
  hw_irq0 :: bool                             \<comment> \<open>\<open>CPU_INTERRUPT_HARD\<close> pending in \<open>cpu_env\<close>\<close>
  nic_phys :: "nat \<Rightarrow> nat \<Rightarrow> 8 word"          \<comment> \<open>\<open>nic[i].phys[k]\<close>\<close>
  nic_vc :: "nat \<Rightarrow> bool"                     \<comment> \<open>\<open>nic[i].vc != 0\<close>\<close>
  intmask :: "nat \<Rightarrow> 32 word"
  cpmac0 :: regbank
  watchdog :: "nat \<Rightarrow> 32 word"
  vlynq0 :: regbank
  vlynq1 :: regbank
  mdio :: "nat \<Rightarrow> 32 word"
  intc :: "nat \<Rightarrow> 32 word"
  cpmac1 :: regbank
  mdio_regaddr :: "32 word"
  mdio_phyaddr :: "32 word"
  mdio_data :: "32 word"
  mdio_useraccess_data :: "nat \<Rightarrow> nat \<Rightarrow> 16 word"
  ram :: "32 word \<Rightarrow> 8 word"                  \<comment> \<open>guest physical memory\<close>
  sent :: "(nat \<times> 8 word list) list"          \<comment> \<open>frames passed to \<open>qemu_send_packet\<close>, oldest first\<close>

text \<open>
  The state the program starts in: the static initialiser of \<open>av\<close>
  (\<open>mdio:{0x00070101, 0, 0xffffffff}\<close>, every bank below zero) and of
  \<open>mdio_useraccess_data\<close>, no NIC bound, and the machine around it at rest (no
  interrupt pending, guest memory zero, nothing sent).
\<close>

definition av_init :: avalanche_t where
  "av_init =
     \<lparr>CP0_Cause = 0, hw_irq0 = False,
      nic_phys = (\<lambda>_ _. 0), nic_vc = (\<lambda>_. False),
      intmask = (\<lambda>_. 0),
      cpmac0 = (\<lambda>_. 0),
      watchdog = (\<lambda>_. 0),
      vlynq0 = (\<lambda>_. 0), vlynq1 = (\<lambda>_. 0),
      mdio = (\<lambda>_. 0)(0 := 0x00070101, 2 := 0xffffffff),
      intc = (\<lambda>_. 0),
      cpmac1 = (\<lambda>_. 0),
      mdio_regaddr = 0, mdio_phyaddr = 0, mdio_data = 0,
      mdio_useraccess_data = (\<lambda>_ _. 0)(0 := (\<lambda>_. 0)(0 := 0x1000, 1 := 0x7809, 4 := 0x01e1, 5 := 0x0001)),
      ram = (\<lambda>_. 0), sent = []\<rparr>"

subsection \<open>The collaborators outside \<open>hw/ar7.c\<close>\<close>

text \<open>
  Modelled from the spec: \<open>cpu_interrupt\<close> and \<open>cpu_reset_interrupt\<close> with
  \<open>CPU_INTERRUPT_HARD\<close> are missing from the sources; they are the CPU facade's
  \<open>raise_hw_irq0()\<close> and \<open>clear_hw_irq0()\<close>, which assert and deassert hardware
  interrupt 0.
\<close>

definition cpu_interrupt :: "avalanche_t \<Rightarrow> avalanche_t" where
  "cpu_interrupt s = s\<lparr>hw_irq0 := True\<rparr>"

definition cpu_reset_interrupt :: "avalanche_t \<Rightarrow> avalanche_t" where
  "cpu_reset_interrupt s = s\<lparr>hw_irq0 := False\<rparr>"

text \<open>
  Modelled from the spec: \<open>cpu_physical_memory_read\<close>, \<open>cpu_physical_memory_write\<close>
  and \<open>stl_phys\<close> are missing from the sources; they are \<open>phys_read(addr,buf,n)\<close> and
  \<open>phys_write(addr,buf,n)\<close> on guest RAM, byte-addressable by a 32-bit physical address
  (address arithmetic wraps), and the little-endian 32-bit store built on them.
\<close>

definition cpu_physical_memory_read :: "(32 word \<Rightarrow> 8 word) \<Rightarrow> 32 word \<Rightarrow> nat \<Rightarrow> 8 word list" where
  "cpu_physical_memory_read m addr len = map (\<lambda>i. m (addr + of_nat i)) [0..<len]"

fun cpu_physical_memory_write :: "(32 word \<Rightarrow> 8 word) \<Rightarrow> 32 word \<Rightarrow> 8 word list \<Rightarrow> 32 word \<Rightarrow> 8 word" where
  "cpu_physical_memory_write m addr [] = m"
| "cpu_physical_memory_write m addr (b # bs) = cpu_physical_memory_write (m(addr := b)) (addr + 1) bs"

definition ldl_phys :: "(32 word \<Rightarrow> 8 word) \<Rightarrow> 32 word \<Rightarrow> 32 word" where
  "ldl_phys m addr = le32_to_cpu (m addr) (m (addr + 1)) (m (addr + 2)) (m (addr + 3))"

definition stl_phys :: "(32 word \<Rightarrow> 8 word) \<Rightarrow> 32 word \<Rightarrow> 32 word \<Rightarrow> 32 word \<Rightarrow> 8 word" where
  "stl_phys m addr v = cpu_physical_memory_write m addr (map (cpu_to_le32 v) [0..<4])"

text \<open>
  Modelled from the spec: \<open>qemu_send_packet\<close> is missing from the sources; it is
  \<open>net_send(nic,buf,len)\<close>, which hands the first \<open>len\<close> bytes of the buffer to the
  network backend bound to the NIC.
\<close>

definition qemu_send_packet :: "nat \<Rightarrow> 8 word list \<Rightarrow> avalanche_t \<Rightarrow> avalanche_t" where
  "qemu_send_packet index frame s = s\<lparr>sent := sent s @ [(index, frame)]\<rparr>"

text \<open>
  The C reads a descriptor (\<open>cpphy_tcb_t\<close>, \<open>cpphy_rcb_t\<close>: four little-endian words
  \<open>next\<close>, \<open>buff\<close>, \<open>length\<close>, \<open>mode\<close>) with one 16-byte
  \<open>cpu_physical_memory_read\<close> and decodes the fields with \<open>le32_to_cpu\<close>.
\<close>

record cpphy_tcb_t =
  tcb_next :: "32 word"
  tcb_buff :: "32 word"
  tcb_length :: "32 word"
  tcb_mode :: "32 word"

definition read_tcb :: "(32 word \<Rightarrow> 8 word) \<Rightarrow> 32 word \<Rightarrow> cpphy_tcb_t" where
  "read_tcb m val =
     (let b = cpu_physical_memory_read m val 16 in
      \<lparr>tcb_next = le32_to_cpu (b ! 0) (b ! 1) (b ! 2) (b ! 3),
       tcb_buff = le32_to_cpu (b ! 4) (b ! 5) (b ! 6) (b ! 7),
       tcb_length = le32_to_cpu (b ! 8) (b ! 9) (b ! 10) (b ! 11),
       tcb_mode = le32_to_cpu (b ! 12) (b ! 13) (b ! 14) (b ! 15)\<rparr>)"

definition tcb_bytes :: "cpphy_tcb_t \<Rightarrow> 8 word list" where
  "tcb_bytes d =
     map (cpu_to_le32 (tcb_next d)) [0..<4] @ map (cpu_to_le32 (tcb_buff d)) [0..<4] @
     map (cpu_to_le32 (tcb_length d)) [0..<4] @ map (cpu_to_le32 (tcb_mode d)) [0..<4]"

section \<open>Interrupt emulation\<close>

text \<open>
  \<open>ar7_irq(opaque, irq_num, level)\<close>.  The switch accepts the four lines 15, 16, 27
  and 41; \<open>unsigned channel = irq_num - 8\<close>; the mask test and the store to
  \<open>av.intc[0x10]\<close> sit under \<open>if (channel < 32)\<close>.
\<close>

definition ar7_irq :: "int \<Rightarrow> int \<Rightarrow> avalanche_t \<Rightarrow> avalanche_t" where
  "ar7_irq irq_num level s =
     (if irq_num = 15 \<or> irq_num = 16 \<or> irq_num = 27 \<or> irq_num = 41 then
        (if level \<noteq> 0 then
           (let channel = (word_of_int (irq_num - 8) :: 32 word) in
            if channel < 32 then
              (if intmask s 0 AND push_bit (unat channel) 1 \<noteq> 0 then
                 cpu_interrupt
                   (s\<lparr>intc := (intc s)(0x10 := push_bit 16 (word_of_int (irq_num - 8)) OR channel),
                      CP0_Cause := CP0_Cause s OR 0x00000400\<rparr>)
               else s)
            else s)
         else
           cpu_reset_interrupt
             (s\<lparr>intc := (intc s)(0x10 := 0),
                CP0_Cause := CP0_Cause s AND NOT 0x00000400\<rparr>))
      else s)"

section \<open>Interrupt controller emulation\<close>

definition ar7_intc_read :: "nat \<Rightarrow> avalanche_t \<Rightarrow> 32 word" where
  "ar7_intc_read index s = intc s index"

definition ar7_intc_write :: "nat \<Rightarrow> 32 word \<Rightarrow> avalanche_t \<Rightarrow> avalanche_t" where
  "ar7_intc_write index val s =
     (let subindex = index mod 2;
          s1 = s\<lparr>intc := (intc s)(index := val)\<rparr>
      in if index = 8 \<or> index = 9 then
           s1\<lparr>intmask := (intmask s1)(subindex := intmask s1 subindex OR val)\<rparr>
         else if index = 12 \<or> index = 13 then
           s1\<lparr>intmask := (intmask s1)(subindex := intmask s1 subindex AND NOT val)\<rparr>
         else s1)"

section \<open>VLYNQ emulation\<close>

definition VLYNQ_REVID :: nat where [simp]: "VLYNQ_REVID = 0x00"
definition VLYNQ_CTRL :: nat where [simp]: "VLYNQ_CTRL = 0x04"
definition VLYNQ_STAT :: nat where [simp]: "VLYNQ_STAT = 0x08"

definition ar7_vlynq_read :: "regbank \<Rightarrow> nat \<Rightarrow> 32 word" where
  "ar7_vlynq_read vlynq offset =
     (let val = reg_read vlynq offset in
      if offset = VLYNQ_REVID then 0x00010206 else val)"

text \<open>
  \<open>ar7_vlynq_write\<close> ends in \<open>reg_write(vlynq, offset, val)\<close>, whose alignment
  assertion is the first branch here (a misaligned offset is neither \<open>VLYNQ_REVID\<close> nor
  \<open>VLYNQ_CTRL\<close>, so nothing is stored before the assertion fails).
\<close>

definition ar7_vlynq_write :: "regbank \<Rightarrow> nat \<Rightarrow> 32 word \<Rightarrow> error + regbank" where
  "ar7_vlynq_write vlynq offset val =
     (if offset mod 4 \<noteq> 0 then Inl Assertion_failed
      else
        (let vlynq1 =
           (if offset = VLYNQ_REVID then vlynq
            else if offset = VLYNQ_CTRL then
              (if val AND 1 = 0 then reg_set vlynq VLYNQ_STAT 1
               else reg_clear vlynq VLYNQ_STAT 1)
            else vlynq)
         in Inr (reg_write vlynq1 offset val)))"

section \<open>Watchdog timer emulation\<close>

definition KICK_VALUE :: "32 word" where [simp]: "KICK_VALUE = 1"
definition KICK_LOCK_1ST_STAGE :: "32 word" where [simp]: "KICK_LOCK_1ST_STAGE = 0x5555"
definition KICK_LOCK_2ND_STAGE :: "32 word" where [simp]: "KICK_LOCK_2ND_STAGE = 0xAAAA"
definition PRESCALE_LOCK_1ST_STAGE :: "32 word" where [simp]: "PRESCALE_LOCK_1ST_STAGE = 0x5A5A"
definition PRESCALE_LOCK_2ND_STAGE :: "32 word" where [simp]: "PRESCALE_LOCK_2ND_STAGE = 0xA5A5"
definition CHANGE_LOCK_1ST_STAGE :: "32 word" where [simp]: "CHANGE_LOCK_1ST_STAGE = 0x6666"
definition CHANGE_LOCK_2ND_STAGE :: "32 word" where [simp]: "CHANGE_LOCK_2ND_STAGE = 0xBBBB"
definition DISABLE_LOCK_1ST_STAGE :: "32 word" where [simp]: "DISABLE_LOCK_1ST_STAGE = 0x7777"
definition DISABLE_LOCK_2ND_STAGE :: "32 word" where [simp]: "DISABLE_LOCK_2ND_STAGE = 0xCCCC"
definition DISABLE_LOCK_3RD_STAGE :: "32 word" where [simp]: "DISABLE_LOCK_3RD_STAGE = 0xDDDD"

text \<open>
  \<open>wdtimer_t\<close> overlays the first eight words of \<open>av.watchdog\<close>; the fields are named
  by their word index.
\<close>

definition kick_lock :: nat where [simp]: "kick_lock = 0"
definition kick :: nat where [simp]: "kick = 1"
definition change_lock :: nat where [simp]: "change_lock = 2"
definition change :: nat where [simp]: "change = 3"
definition disable_lock :: nat where [simp]: "disable_lock = 4"
definition disable :: nat where [simp]: "disable = 5"
definition prescale_lock :: nat where [simp]: "prescale_lock = 6"
definition prescale :: nat where [simp]: "prescale = 7"

text \<open>\<open>static uint16_t wd_val(uint16_t val, uint16_t bits)\<close>; the callers widen the result to 32 bits.\<close>

definition wd_val :: "32 word \<Rightarrow> 16 word \<Rightarrow> 32 word" where
  "wd_val val bits = ucast (((ucast val :: 16 word) AND NOT 0x3) OR bits)"

text \<open>
  \<open>ar7_wdt_write(offset, val)\<close>.  \<open>TRACE(WDOG, ...)\<close> prints nothing (\<open>WDOG\<close> is 0);
  \<open>UNEXPECTED()\<close> and \<open>MISSING()\<close> always print, and the function returns them here
  in the order they are printed, next to the watchdog bank.
\<close>

definition ar7_wdt_write :: "nat \<Rightarrow> 32 word \<Rightarrow> (nat \<Rightarrow> 32 word) \<Rightarrow> log_event list \<times> (nat \<Rightarrow> 32 word)" where
  "ar7_wdt_write offset val wdt =
     (if offset = 4 * kick_lock then
        (if val = KICK_LOCK_1ST_STAGE then ([], wdt(kick_lock := wd_val val 1))
         else if val = KICK_LOCK_2ND_STAGE then ([], wdt(kick_lock := wd_val val 3))
         else ([], wdt))
      else if offset = 4 * kick then
        (if wdt kick_lock \<noteq> wd_val KICK_LOCK_2ND_STAGE 3 then ([UNEXPECTED, MISSING], wdt)
         else if val = KICK_VALUE then ([MISSING], wdt)
         else ([MISSING], wdt))
      else if offset = 4 * change_lock then
        (if val = CHANGE_LOCK_1ST_STAGE then ([], wdt(change_lock := wd_val val 1))
         else if val = CHANGE_LOCK_2ND_STAGE then ([], wdt(change_lock := wd_val val 3))
         else ([], wdt))
      else if offset = 4 * change then
        (if wdt change_lock \<noteq> wd_val CHANGE_LOCK_2ND_STAGE 3 then ([UNEXPECTED, MISSING], wdt)
         else ([MISSING], wdt))
      else if offset = 4 * disable_lock then
        (if val = DISABLE_LOCK_1ST_STAGE then ([], wdt(disable_lock := wd_val val 1))
         else if val = DISABLE_LOCK_2ND_STAGE then ([], wdt(disable_lock := wd_val val 2))
         else if val = DISABLE_LOCK_3RD_STAGE then ([], wdt(disable_lock := wd_val val 3))
         else ([], wdt))
      else if offset = 4 * disable then
        (if wdt disable_lock \<noteq> wd_val DISABLE_LOCK_3RD_STAGE 3 then ([UNEXPECTED, MISSING], wdt)
         else ([MISSING], wdt))
      else if offset = 4 * prescale_lock then
        (if val = PRESCALE_LOCK_1ST_STAGE then ([], wdt(prescale_lock := wd_val val 1))
         else if val = PRESCALE_LOCK_2ND_STAGE then ([], wdt(prescale_lock := wd_val val 3))
         else ([], wdt))
      else if offset = 4 * prescale then
        (if wdt prescale_lock \<noteq> wd_val PRESCALE_LOCK_2ND_STAGE 3 then ([UNEXPECTED, MISSING], wdt)
         else ([MISSING], wdt))
      else ([], wdt))"

section \<open>MDIO emulation\<close>

definition MDIO_USERACCESS_GO :: "32 word" where [simp]: "MDIO_USERACCESS_GO = 0x80000000"
definition MDIO_USERACCESS_WRITE :: "32 word" where [simp]: "MDIO_USERACCESS_WRITE = 0x40000000"
definition MDIO_USERACCESS_REGADR :: "32 word" where [simp]: "MDIO_USERACCESS_REGADR = push_bit 21 0x1F"
definition MDIO_USERACCESS_PHYADR :: "32 word" where [simp]: "MDIO_USERACCESS_PHYADR = push_bit 16 0x1F"
definition MDIO_USERACCESS_DATA :: "32 word" where [simp]: "MDIO_USERACCESS_DATA = 0xFFFF"

definition PHY_CONTROL_REG :: "32 word" where [simp]: "PHY_CONTROL_REG = 0"
definition PHY_RESET :: "32 word" where [simp]: "PHY_RESET = 0x8000"
definition AUTO_NEGOTIATE_EN :: "32 word" where [simp]: "AUTO_NEGOTIATE_EN = 0x1000"
definition PHY_ISOLATE :: "32 word" where [simp]: "PHY_ISOLATE = 0x0400"
definition RENEGOTIATE :: "32 word" where [simp]: "RENEGOTIATE = 0x0200"

text \<open>
  \<open>ar7_mdio_write(mdio, index, val)\<close>; \<open>mdio\<close> is \<open>av.mdio\<close>.  The PHY register file
  \<open>mdio_useraccess_data[1][6]\<close> holds \<open>uint16_t\<close>, so stores truncate and loads widen.
  The function ends with \<open>av.mdio[index] = val\<close> on every path.
\<close>

definition ar7_mdio_write :: "nat \<Rightarrow> 32 word \<Rightarrow> avalanche_t \<Rightarrow> avalanche_t" where
  "ar7_mdio_write index val s =
     (let (s', val') =
        (if index = 0 then (s, val)
         else if index = 1 then (s, val)
         else if index = 0x20 \<and> val AND MDIO_USERACCESS_GO \<noteq> 0 then
           (let write = drop_bit 30 (val AND MDIO_USERACCESS_WRITE);
                s1 = s\<lparr>mdio_regaddr := drop_bit 21 (val AND MDIO_USERACCESS_REGADR),
                       mdio_phyaddr := drop_bit 16 (val AND MDIO_USERACCESS_PHYADR),
                       mdio_data := val AND MDIO_USERACCESS_DATA\<rparr>;
                val1 = val AND MDIO_USERACCESS_DATA
            in if mdio_phyaddr s1 = 31 \<and> mdio_regaddr s1 < 6 then
                 (let s2 = s1\<lparr>mdio_phyaddr := 0\<rparr>;
                      p = unat (mdio_phyaddr s2);
                      r = unat (mdio_regaddr s2);
                      d = mdio_useraccess_data s2
                  in if write \<noteq> 0 then
                       (s2\<lparr>mdio_useraccess_data := d(p := (d p)(r := ucast val1))\<rparr>, val1)
                     else
                       (let val2 = (ucast (d p r) :: 32 word) in
                        if mdio_regaddr s2 = PHY_CONTROL_REG \<and> val2 AND PHY_RESET \<noteq> 0 then
                          (s2\<lparr>mdio_useraccess_data :=
                                d(p := (d p)(r := ucast ((val2 AND NOT PHY_RESET) OR AUTO_NEGOTIATE_EN)))\<rparr>,
                           val2)
                        else if mdio_regaddr s2 = PHY_CONTROL_REG \<and> val2 AND RENEGOTIATE \<noteq> 0 then
                          (let val3 = val2 AND NOT RENEGOTIATE;
                               d1 = d(p := (d p)(r := ucast val3));
                               d2 = d1(p := (d1 p)(1 := 0x782d));
                               d3 = d2(p := (d2 p)(5 := ucast (ucast (d2 p 4) OR PHY_ISOLATE OR PHY_RESET)))
                           in (s2\<lparr>mdio_useraccess_data := d3, mdio := (mdio s2)(3 := 0x80000000)\<rparr>,
                               val3))
                        else (s2, val2)))
               else (s1, val1))
         else (s, val))
      in s'\<lparr>mdio := (mdio s')(index := val')\<rparr>)"

definition ar7_mdio_read :: "nat \<Rightarrow> avalanche_t \<Rightarrow> 32 word \<times> avalanche_t" where
  "ar7_mdio_read index s =
     (let val = mdio s index in
      if index = 0 then (val, s)
      else if index = 1 then (val, s)
      else if index = 0x20 then (val, s\<lparr>mdio_data := val AND MDIO_USERACCESS_DATA\<rparr>)
      else (val, s))"

section \<open>CPMAC emulation\<close>

definition CB_SOF_BIT :: "32 word" where "CB_SOF_BIT = 0x80000000"
definition CB_EOF_BIT :: "32 word" where "CB_EOF_BIT = 0x40000000"
definition CB_OWNERSHIP_BIT :: "32 word" where "CB_OWNERSHIP_BIT = 0x20000000"
definition CB_EOQ_BIT :: "32 word" where "CB_EOQ_BIT = 0x10000000"
definition CB_SIZE_MASK :: "32 word" where "CB_SIZE_MASK = 0x0000ffff"
definition MAX_ETH_FRAME_SIZE :: "32 word" where [simp]: "MAX_ETH_FRAME_SIZE = 1514"

definition CPMAC_TX_INTMASK_SET :: nat where [simp]: "CPMAC_TX_INTMASK_SET = 0x0178"
definition CPMAC_MAC_IN_VECTOR :: nat where [simp]: "CPMAC_MAC_IN_VECTOR = 0x0180"
definition CPMAC_MACADDRLO_0 :: nat where [simp]: "CPMAC_MACADDRLO_0 = 0x01b0"
definition CPMAC_MACADDRMID :: nat where [simp]: "CPMAC_MACADDRMID = 0x01d0"
definition CPMAC_MACADDRHI :: nat where [simp]: "CPMAC_MACADDRHI = 0x01d4"
definition CPMAC_RXGOODFRAMES :: nat where [simp]: "CPMAC_RXGOODFRAMES = 0x0200"
definition CPMAC_RXBROADCASTFRAMES :: nat where [simp]: "CPMAC_RXBROADCASTFRAMES = 0x0204"
definition CPMAC_RXMULTICASTFRAMES :: nat where [simp]: "CPMAC_RXMULTICASTFRAMES = 0x0208"
definition CPMAC_RXDMAOVERRUNS :: nat where [simp]: "CPMAC_RXDMAOVERRUNS = 0x028c"
definition CPMAC_RXOVERSIZEDFRAMES :: nat where [simp]: "CPMAC_RXOVERSIZEDFRAMES = 0x0218"
definition CPMAC_RXUNDERSIZEDFRAMES :: nat where [simp]: "CPMAC_RXUNDERSIZEDFRAMES = 0x0220"
definition CPMAC_TXGOODFRAMES :: nat where [simp]: "CPMAC_TXGOODFRAMES = 0x234"
definition CPMAC_TX0_HDP :: nat where [simp]: "CPMAC_TX0_HDP = 0x0600"
definition CPMAC_TX7_HDP :: nat where [simp]: "CPMAC_TX7_HDP = 0x061c"
definition CPMAC_RX0_HDP :: nat where [simp]: "CPMAC_RX0_HDP = 0x0620"
definition CPMAC_RX7_HDP :: nat where [simp]: "CPMAC_RX7_HDP = 0x063c"

definition MAC_IN_VECTOR_RX_INT_OR :: "32 word" where [simp]: "MAC_IN_VECTOR_RX_INT_OR = 0x20000"
definition MAC_IN_VECTOR_TX_INT_OR :: "32 word" where [simp]: "MAC_IN_VECTOR_TX_INT_OR = 0x10000"

definition cpmac_interrupt :: "nat \<Rightarrow> int" where
  "cpmac_interrupt index = [27, 41] ! index"

text \<open>
  The C handlers receive the bank as a pointer, \<open>av.cpmac0\<close> or \<open>av.cpmac1\<close>, next to
  the instance number; every caller pairs \<open>av.cpmac0\<close> with 0 and \<open>av.cpmac1\<close> with 1
  (\<open>ar7_nic_receive\<close>: \<open>if (index != 0) cpmac = av.cpmac1\<close>), so the instance number
  selects the bank here.
\<close>

definition cpmac :: "nat \<Rightarrow> avalanche_t \<Rightarrow> regbank" where
  "cpmac index s = (if index \<noteq> 0 then cpmac1 s else cpmac0 s)"

definition cpmac_update :: "nat \<Rightarrow> regbank \<Rightarrow> avalanche_t \<Rightarrow> avalanche_t" where
  "cpmac_update index c s = (if index \<noteq> 0 then s\<lparr>cpmac1 := c\<rparr> else s\<lparr>cpmac0 := c\<rparr>)"

definition ar7_cpmac_read :: "nat \<Rightarrow> nat \<Rightarrow> avalanche_t \<Rightarrow> 32 word \<times> avalanche_t" where
  "ar7_cpmac_read index offset s =
     (let val = reg_read (cpmac index s) offset in
      if offset = CPMAC_MAC_IN_VECTOR then
        (val, cpmac_update index (reg_write (cpmac index s) CPMAC_MAC_IN_VECTOR 0) s)
      else (val, s))"

text \<open>
  The channel search of the \<open>TX_INTMASK_SET\<close> write:
  \<open>while (val != 1) { channel++; val /= 2; }\<close>.  Entered with \<open>val = 0\<close> the loop would
  never leave, which is the value \<open>None\<close>.
\<close>

partial_function (option) tx_intmask_channel :: "32 word \<Rightarrow> 32 word \<Rightarrow> 32 word option" where
  "tx_intmask_channel channel val =
     (if val \<noteq> 1 then tx_intmask_channel (channel + 1) (val div 2) else Some channel)"

text \<open>
  The transmit loop of the \<open>TXn_HDP\<close> write: \<open>while (val != 0) { ... sendloop: ... }\<close>.
  One call of \<open>tx_sendloop\<close> is one pass through the block at \<open>sendloop:\<close>, with the
  frame assembled so far in \<open>buffer\<close> and its size in \<open>len\<close> (the C's \<open>length\<close>); the
  \<open>goto sendloop\<close> keeps both, the next round of the \<open>while\<close> starts with an empty
  frame.  A failed \<open>assert\<close> aborts, and a copy that would run past the end of
  \<open>uint8_t buffer[MAX_ETH_FRAME_SIZE + 4]\<close> (possible only when the 32-bit sum in the
  first assertion wraps) is an error of its own.

  Every pass that goes on has found \<open>CB_OWNERSHIP_BIT\<close> set in the descriptor's mode and
  has cleared it in guest memory, and nothing sets a bit of guest memory, so the number
  of passes is bounded by the number of such bits: the loop always terminates.  The
  lemmas before the function are the facts about loads and stores its termination
  proof needs.
\<close>

lemma cpu_to_le32_le32:
  "cpu_to_le32 (le32_to_cpu b0 b1 b2 b3) 0 = b0"
  "cpu_to_le32 (le32_to_cpu b0 b1 b2 b3) 1 = b1"
  "cpu_to_le32 (le32_to_cpu b0 b1 b2 b3) 2 = b2"
  "cpu_to_le32 (le32_to_cpu b0 b1 b2 b3) 3 = b3"
  unfolding le32_to_cpu_def cpu_to_le32_def
  by (rule bit_word_eqI; auto simp add: bit_simps dest: bit_imp_le_length)+

lemma upt4: "[0..<4] = [0, 1, 2, 3::nat]"
  by (simp add: upt_rec)

lemma upt16: "[0..<16] = [0, 1, 2, 3, 4, 5, 6, 7, 8, 9, 10, 11, 12, 13, 14, 15::nat]"
  by (simp add: upt_rec)

lemma stl_phys_bytes:
  "stl_phys m a v = m(a := cpu_to_le32 v 0, a + 1 := cpu_to_le32 v 1, a + 2 := cpu_to_le32 v 2, a + 3 := cpu_to_le32 v 3)"
  by (simp add: stl_phys_def upt4 add.assoc)

lemma read_tcb_ldl:
  "read_tcb m val = \<lparr>tcb_next = ldl_phys m val, tcb_buff = ldl_phys m (val + 4),
      tcb_length = ldl_phys m (val + 8), tcb_mode = ldl_phys m (val + 12)\<rparr>"
  by (simp add: read_tcb_def cpu_physical_memory_read_def upt16 ldl_phys_def add.assoc)

lemma bit_CB_OWNERSHIP_BIT: "bit CB_OWNERSHIP_BIT n \<longleftrightarrow> n = 29"
proof -
  have e: "CB_OWNERSHIP_BIT = 2 ^ 29" by (simp add: CB_OWNERSHIP_BIT_def)
  show ?thesis unfolding e bit_exp_iff by auto
qed

lemma clear_own_bytes:
  "cpu_to_le32 (le32_to_cpu b0 b1 b2 b3 AND NOT CB_OWNERSHIP_BIT) 0 = b0"
  "cpu_to_le32 (le32_to_cpu b0 b1 b2 b3 AND NOT CB_OWNERSHIP_BIT) (Suc 0) = b1"
  "cpu_to_le32 (le32_to_cpu b0 b1 b2 b3 AND NOT CB_OWNERSHIP_BIT) 2 = b2"
  "cpu_to_le32 (le32_to_cpu b0 b1 b2 b3 AND NOT CB_OWNERSHIP_BIT) 3 = unset_bit 5 b3"
  unfolding le32_to_cpu_def cpu_to_le32_def
  by (rule bit_word_eqI; auto simp add: bit_simps bit_CB_OWNERSHIP_BIT dest: bit_imp_le_length)+

lemma clear_own_mem:
  "stl_phys m a (ldl_phys m a AND NOT CB_OWNERSHIP_BIT) = m(a + 3 := unset_bit 5 (m (a + 3)))"
  by (auto simp add: stl_phys_bytes ldl_phys_def clear_own_bytes fun_eq_iff)

lemma bit_own_ldl: "ldl_phys m a AND CB_OWNERSHIP_BIT \<noteq> 0 \<longleftrightarrow> bit (m (a + 3)) 5"
proof -
  have "ldl_phys m a AND CB_OWNERSHIP_BIT \<noteq> 0 \<longleftrightarrow> bit (ldl_phys m a) 29"
    using and_exp_eq_0_iff_not_bit [of "ldl_phys m a" 29] by (simp add: CB_OWNERSHIP_BIT_def)
  also have "\<dots> \<longleftrightarrow> bit (m (a + 3)) 5"
    by (auto simp add: ldl_phys_def le32_to_cpu_def bit_simps dest: bit_imp_le_length)
  finally show ?thesis .
qed

lemma card_clear:
  assumes "bit ((m :: 32 word \<Rightarrow> 8 word) x) 5"
  shows "card {a. bit ((m(x := unset_bit 5 (m x))) a) 5} < card {a. bit (m a) 5}"
proof (rule psubset_card_mono)
  show "finite {a. bit (m a) 5}" by simp
  show "{a. bit ((m(x := unset_bit 5 (m x))) a) 5} \<subset> {a. bit (m a) 5}"
    using assms by (auto simp add: bit_simps)
qed


lemma ram_ar7_irq [simp]: "ram (ar7_irq n l s) = ram s"
  by (simp add: ar7_irq_def cpu_interrupt_def cpu_reset_interrupt_def Let_def)

lemma ram_cpmac_update [simp]: "ram (cpmac_update i c s) = ram s"
  by (simp add: cpmac_update_def)

lemma ram_qemu_send_packet [simp]: "ram (qemu_send_packet i f s) = ram s"
  by (simp add: qemu_send_packet_def)

lemma tx_measure:
  assumes "tcb_mode (read_tcb m val) AND CB_OWNERSHIP_BIT \<noteq> 0"
  shows "card {a. bit (stl_phys m (val + 12) (tcb_mode (read_tcb m val) AND NOT CB_OWNERSHIP_BIT) a) 5}
           < card {a. bit (m a) 5}"
proof -
  have "bit (m (val + 12 + 3)) 5"
    using assms by (simp add: read_tcb_ldl bit_own_ldl)
  then show ?thesis
    by (simp only: read_tcb_ldl cpphy_tcb_t.simps clear_own_mem card_clear)
qed

text \<open>
  What the loop does with an assembled frame, the block under
  \<open>if (av.nic[index].vc != 0)\<close>: the frame goes to the backend, \<open>TXGOODFRAMES\<close> is
  incremented, \<open>TX_INT_OR + channel\<close> is OR-ed into \<open>MAC_IN_VECTOR\<close> and the CPMAC
  interrupt line of the instance is asserted.  Without a backend nothing happens.
\<close>

definition tx_frame_out :: "nat \<Rightarrow> 8 word \<Rightarrow> 8 word list \<Rightarrow> avalanche_t \<Rightarrow> avalanche_t" where
  "tx_frame_out index channel frame s =
     (if nic_vc s index then
        ar7_irq (cpmac_interrupt index) 1
          (cpmac_update index
             (reg_set (reg_inc (cpmac index s) CPMAC_TXGOODFRAMES)
                CPMAC_MAC_IN_VECTOR (MAC_IN_VECTOR_TX_INT_OR + ucast channel))
             (qemu_send_packet index frame s))
      else s)"

lemma ram_tx_frame_out [simp]: "ram (tx_frame_out index channel frame s) = ram s"
  by (simp add: tx_frame_out_def)

function tx_sendloop :: "nat \<Rightarrow> 8 word \<Rightarrow> 32 word \<Rightarrow> 32 word \<Rightarrow> 8 word list \<Rightarrow> avalanche_t \<Rightarrow> error + avalanche_t" where
  "tx_sendloop index channel val len buffer s =
     (let tcb = read_tcb (ram s) val;
          addr = tcb_buff tcb;
          curlen = tcb_length tcb;
          mode = tcb_mode tcb
      in if \<not> len + curlen \<le> MAX_ETH_FRAME_SIZE then Inl Assertion_failed
         else if unat MAX_ETH_FRAME_SIZE + 4 < unat len + unat curlen then Inl Buffer_overflow
         else
           (let buffer1 = buffer @ cpu_physical_memory_read (ram s) addr (unat curlen);
                length1 = len + curlen
            in if mode AND CB_SIZE_MASK \<noteq> curlen then Inl Assertion_failed
               else if mode AND CB_SOF_BIT = 0 then Inl Assertion_failed
               else if mode AND CB_EOF_BIT = 0 then Inl Assertion_failed
               else if mode AND CB_OWNERSHIP_BIT = 0 then Inl Assertion_failed
               else
                 (let mode1 = mode AND NOT CB_OWNERSHIP_BIT;
                      s1 = s\<lparr>ram := stl_phys (ram s) (val + 12) mode1\<rparr>
                  in if mode1 AND CB_EOQ_BIT \<noteq> 0 then
                       tx_sendloop index channel (tcb_next tcb) length1 buffer1 s1
                     else
                       (let s2 = tx_frame_out index channel buffer1 s1;
                            val1 = tcb_next tcb
                        in if val1 \<noteq> 0 then tx_sendloop index channel val1 0 [] s2
                           else Inr s2))))"
  by pat_completeness auto
termination
proof (relation "measure (\<lambda>(index, channel, val, len, buffer, s). card {a. bit (ram s a) 5})", goal_cases)
  case 1
  show ?case by simp
next
  case 2
  then show ?case by (simp add: tx_measure)
next
  case 3
  then show ?case by (simp add: tx_measure)
qed

declare tx_sendloop.simps [simp del]

text \<open>
  \<open>ar7_cpmac_write(cpmac, index, offset, val)\<close>.  Its first statement is
  \<open>assert((offset & 3) == 0)\<close>, its second the store of \<open>val\<close> at \<open>offset\<close>.  The
  branches for \<open>RX_MBP_ENABLE\<close> (0x100), \<open>RX_MAXLEN\<close> (0x10c) and \<open>RXn_HDP\<close> only
  print; a statistics register written with anything but \<open>0xffffffff\<close> prints
  \<open>UNEXPECTED\<close> and keeps the value just stored.
\<close>

definition ar7_cpmac_write :: "nat \<Rightarrow> nat \<Rightarrow> 32 word \<Rightarrow> avalanche_t \<Rightarrow> error + avalanche_t" where
  "ar7_cpmac_write index offset val s =
     (if offset mod 4 \<noteq> 0 then Inl Assertion_failed
      else
        (let s1 = cpmac_update index (reg_write (cpmac index s) offset val) s in
         if offset = 0x100 then Inr s1
         else if offset = 0x10c then Inr s1
         else if offset = CPMAC_TX_INTMASK_SET then
           (if val \<noteq> 0 then
              (case tx_intmask_channel 0 val of
                 None \<Rightarrow> Inl Loop_forever
               | Some channel \<Rightarrow>
                   Inr (ar7_irq (cpmac_interrupt index) 1
                          (cpmac_update index
                             (reg_set (cpmac index s1) CPMAC_MAC_IN_VECTOR
                                (MAC_IN_VECTOR_TX_INT_OR + channel)) s1)))
            else Inr s1)
         else if offset = CPMAC_MACADDRHI then
           (let c = cpmac index s1;
                phys = nic_phys s1 index
            in Inr (s1\<lparr>nic_phys := (nic_phys s1)
                        (index := phys(5 := c CPMAC_MACADDRLO_0, 4 := c CPMAC_MACADDRMID,
                                       3 := c (CPMAC_MACADDRHI + 3), 2 := c (CPMAC_MACADDRHI + 2),
                                       1 := c (CPMAC_MACADDRHI + 1), 0 := c (CPMAC_MACADDRHI + 0)))\<rparr>))
         else if CPMAC_RXGOODFRAMES \<le> offset \<and> offset \<le> CPMAC_RXDMAOVERRUNS then
           (if val = 0xffffffff then Inr (cpmac_update index (reg_write (cpmac index s1) offset 0) s1)
            else Inr s1)
         else if CPMAC_TX0_HDP \<le> offset \<and> offset \<le> CPMAC_TX7_HDP then
           (let channel = (of_nat ((offset - CPMAC_TX0_HDP) div 4) :: 8 word) in
            if val \<noteq> 0 then tx_sendloop index channel val 0 [] s1 else Inr s1)
         else if CPMAC_RX0_HDP \<le> offset \<and> offset \<le> CPMAC_RX7_HDP then Inr s1
         else Inr s1))"

definition ar7_nic_can_receive :: "nat \<Rightarrow> avalanche_t \<Rightarrow> bool" where
  "ar7_nic_can_receive index s \<longleftrightarrow> reg_read (cpmac index s) CPMAC_RX0_HDP \<noteq> 0"

text \<open>
  \<open>ar7_nic_receive(opaque, buf, size)\<close>: \<open>opaque\<close> is the instance number, \<open>buf\<close> the
  host buffer behind the pointer (byte \<open>k\<close> of it is \<open>buf k\<close>) and \<open>sz\<close> the C
  \<open>int size\<close>, whose conversions to \<open>uint32_t\<close> are \<open>word_of_int\<close>.

  The function is modelled in two parts.  \<open>rx_statistics\<close> is its first half, the
  counters: the \<open>memcmp\<close> with the broadcast address, the multicast bit of the first
  octet (the comparison with the NIC's own address only chooses what is printed), the
  undersized and oversized counters and \<open>RXGOODFRAMES\<close>.  \<open>ar7_nic_receive\<close> goes on
  from the bank so counted with the read of \<open>RX0_HDP\<close> and the delivery.
\<close>

definition rx_statistics :: "(nat \<Rightarrow> 8 word) \<Rightarrow> int \<Rightarrow> regbank \<Rightarrow> regbank" where
  "rx_statistics buf sz c0 =
     (let c1 = (if map buf [0..<6] = replicate 6 0xff then reg_inc c0 CPMAC_RXBROADCASTFRAMES
                else if buf 0 AND 0x01 \<noteq> 0 then reg_inc c0 CPMAC_RXMULTICASTFRAMES
                else c0);
          c2 = (if sz < 64 then reg_inc c1 CPMAC_RXUNDERSIZEDFRAMES
                else if sz > uint MAX_ETH_FRAME_SIZE then reg_inc c1 CPMAC_RXOVERSIZEDFRAMES
                else c1)
      in reg_inc c2 CPMAC_RXGOODFRAMES)"

definition ar7_nic_receive :: "nat \<Rightarrow> (nat \<Rightarrow> 8 word) \<Rightarrow> int \<Rightarrow> avalanche_t \<Rightarrow> avalanche_t" where
  "ar7_nic_receive index buf sz s =
     (let c3 = rx_statistics buf sz (cpmac index s);
          s3 = cpmac_update index c3 s;
          val = reg_read c3 CPMAC_RX0_HDP
      in if val = 0 then s3
         else
           (let rcb = read_tcb (ram s3) val;
                addr = tcb_buff rcb;
                mode = tcb_mode rcb
            in if mode AND CB_OWNERSHIP_BIT \<noteq> 0 then
                 (let mode1 = mode AND NOT CB_OWNERSHIP_BIT;
                      mode2 = mode1 OR (word_of_int sz AND CB_SIZE_MASK);
                      mode3 = mode2 OR (CB_SOF_BIT OR CB_EOF_BIT);
                      mode4 = (if tcb_next rcb = 0 then mode3 OR CB_EOQ_BIT else mode3);
                      rcb1 = rcb\<lparr>tcb_length := word_of_int sz, tcb_mode := mode4\<rparr>;
                      m1 = cpu_physical_memory_write (ram s3) addr (map buf [0..<nat sz]);
                      m2 = cpu_physical_memory_write m1 val (tcb_bytes rcb1);
                      s4 = s3\<lparr>ram := m2\<rparr>;
                      s5 = cpmac_update index
                             (reg_set (reg_write (cpmac index s4) CPMAC_RX0_HDP (tcb_next rcb1))
                                CPMAC_MAC_IN_VECTOR (MAC_IN_VECTOR_RX_INT_OR + 0)) s4
                  in ar7_irq (cpmac_interrupt index) 1 s5)
               else s3))"

section \<open>Facts about the register primitives\<close>

lemma reg_read_write_same: "reg_read (reg_write r a v) a = v"
  by (simp add: reg_read_def reg_write_def le32_bytes)

lemma reg_read_write_other:
  "a + 4 \<le> b \<or> b + 4 \<le> a \<Longrightarrow> reg_read (reg_write r a v) b = reg_read r b"
  by (auto simp add: reg_read_def reg_write_def)

lemma reg_read_inc_same: "reg_read (reg_inc c a) a = reg_read c a + 1"
  by (simp add: reg_inc_def reg_read_write_same)

lemma reg_read_inc_other:
  "a + 4 \<le> b \<or> b + 4 \<le> a \<Longrightarrow> reg_read (reg_inc c a) b = reg_read c b"
  by (simp add: reg_inc_def reg_read_write_other)

lemma reg_read_set_same: "reg_read (reg_set c a v) a = reg_read c a OR v"
  by (simp add: reg_set_def reg_read_write_same)

lemma reg_read_set_other:
  "a + 4 \<le> b \<or> b + 4 \<le> a \<Longrightarrow> reg_read (reg_set c a v) b = reg_read c b"
  by (simp add: reg_set_def reg_read_write_other)

lemma cpmac_cpmac_update: "cpmac index (cpmac_update index c s) = c"
  by (simp add: cpmac_def cpmac_update_def)

lemma cpmac_update_twice: "cpmac_update index c (cpmac_update index c' s) = cpmac_update index c s"
  by (simp add: cpmac_update_def)

section \<open>VLYNQ link status\<close>

text \<open>
  Claim C9.  For either VLYNQ bank (the handlers take the bank as their argument), a
  write to the CONTROL register (offset 4) returns normally, and a read of the STATUS
  register (offset 8) after it has bit 0 set when the value written had bit 0 clear, and
  bit 0 clear when the value written had bit 0 set.
\<close>

theorem vlynq_link:
  "\<exists>vlynq'. ar7_vlynq_write vlynq VLYNQ_CTRL val = Inr vlynq' \<and>
      (bit (ar7_vlynq_read vlynq' VLYNQ_STAT) 0 \<longleftrightarrow> \<not> bit val 0)"
proof (cases "val AND 1 = 0")
  case True
  then have "\<not> bit val 0" by (simp add: and_one_eq bit_0 mod2_eq_if split: if_splits)
  with True show ?thesis
    by (simp add: ar7_vlynq_write_def ar7_vlynq_read_def reg_set_def reg_read_write_same
        reg_read_write_other bit_simps bit_0 even_or_iff)
next
  case False
  then have "bit val 0" by (simp add: and_one_eq bit_0 mod2_eq_if split: if_splits)
  with False show ?thesis
    by (simp add: ar7_vlynq_write_def ar7_vlynq_read_def reg_clear_def reg_read_write_same
        reg_read_write_other bit_simps bit_0 even_and_iff even_not_iff)
qed

section \<open>CPMAC: MAC_IN_VECTOR is read-to-clear\<close>

text \<open>
  Claim C3.  For either CPMAC instance, a write of any value \<open>v\<close> (zero or not) to
  MAC_IN_VECTOR (offset 0x0180) returns normally; the next read of that offset returns
  \<open>v\<close> and zeroes the register, so that the read after it returns 0.
\<close>

theorem mac_in_vector_read_to_clear:
  "\<exists>s1 s2 s3. ar7_cpmac_write index CPMAC_MAC_IN_VECTOR v s = Inr s1 \<and>
      ar7_cpmac_read index CPMAC_MAC_IN_VECTOR s1 = (v, s2) \<and>
      ar7_cpmac_read index CPMAC_MAC_IN_VECTOR s2 = (0, s3)"
  by (simp add: ar7_cpmac_write_def ar7_cpmac_read_def Let_def cpmac_cpmac_update reg_read_write_same)

section \<open>Watchdog lock sequencing\<close>

text \<open>The stage field of a lock register: its low two bits.\<close>

definition wdt_stage :: "32 word \<Rightarrow> 32 word" where
  "wdt_stage w = w AND 3"

text \<open>
  The unlock table as the specification words it: the stage a lock register (named by
  its word index) reaches when a value of its unlock sequence is written to it, and
  \<open>None\<close> for every other value.
\<close>

definition unlock_stage :: "nat \<Rightarrow> 32 word \<Rightarrow> 32 word option" where
  "unlock_stage lock val =
     (if lock = kick_lock then
        (if val = 0x5555 then Some 1 else if val = 0xAAAA then Some 3 else None)
      else if lock = change_lock then
        (if val = 0x6666 then Some 1 else if val = 0xBBBB then Some 3 else None)
      else if lock = disable_lock then
        (if val = 0x7777 then Some 1 else if val = 0xCCCC then Some 2
         else if val = 0xDDDD then Some 3 else None)
      else if lock = prescale_lock then
        (if val = 0x5A5A then Some 1 else if val = 0xA5A5 then Some 3 else None)
      else None)"

lemma wd_val_magic:
  "wd_val 0x5555 1 = 0x5555" "wd_val 0xAAAA 3 = 0xAAAB"
  "wd_val 0x6666 1 = 0x6665" "wd_val 0xBBBB 3 = 0xBBBB"
  "wd_val 0x7777 1 = 0x7775" "wd_val 0xCCCC 2 = 0xCCCE" "wd_val 0xDDDD 3 = 0xDDDF"
  "wd_val 0x5A5A 1 = 0x5A59" "wd_val 0xA5A5 3 = 0xA5A7"
  by (simp_all add: wd_val_def)

lemma wdt_locked:
  "wdt_stage w \<noteq> 3 \<Longrightarrow> w \<noteq> 0xAAAB \<and> w \<noteq> 0xBBBB \<and> w \<noteq> 0xDDDF \<and> w \<noteq> 0xA5A7"
  by (auto simp add: wdt_stage_def)

lemma wdt_value_locked:
  assumes "wdt_stage (wdt lock) \<noteq> 3"
    and "lock = 0 \<or> lock = 2 \<or> lock = 4 \<or> lock = 6"
  shows "ar7_wdt_write (4 * (lock + 1)) val wdt = ([UNEXPECTED, MISSING], wdt)"
  using assms(2) wdt_locked [OF assms(1)]
  by (elim disjE) (simp_all add: ar7_wdt_write_def wd_val_magic)

lemma wdt_value_frame:
  assumes "lock = 0 \<or> lock = 2 \<or> lock = 4 \<or> lock = 6"
  shows "snd (ar7_wdt_write (4 * (lock + 1)) val wdt) = wdt"
  using assms by (elim disjE) (simp_all add: ar7_wdt_write_def)

lemma wdt_lock_write:
  assumes "lock = 0 \<or> lock = 2 \<or> lock = 4 \<or> lock = 6"
  shows "case unlock_stage lock val of
            None \<Rightarrow> ar7_wdt_write (4 * lock) val wdt = ([], wdt)
          | Some stage \<Rightarrow>
              wdt_stage (snd (ar7_wdt_write (4 * lock) val wdt) lock) = stage \<and>
              ar7_wdt_write (4 * lock) val wdt =
                ([], wdt(lock := snd (ar7_wdt_write (4 * lock) val wdt) lock))"
  using assms
  by (elim disjE) (simp_all add: ar7_wdt_write_def unlock_stage_def wd_val_magic wdt_stage_def)

text \<open>
  Claim C8.  Let \<open>lock\<close> be one of the four lock registers; its value register is the
  next word.  A write to the value register while the stage field of the lock register
  differs from 3 leaves the whole watchdog bank unchanged and is only logged
  (\<open>UNEXPECTED\<close>, then \<open>MISSING\<close>); in fact no write to a value register changes the
  bank, whatever the lock.  A write to the lock register changes nothing unless the value
  is one of the magic values of its unlock sequence, and then it changes only this lock
  register, whose stage field becomes the stage of the table (prescale: \<open>0x5A5A\<close> gives
  1, \<open>0xA5A5\<close> gives 3; disable: \<open>0x7777\<close>, \<open>0xCCCC\<close>, \<open>0xDDDD\<close> give 1, 2, 3).
\<close>

theorem wdt_lock_sequencing:
  assumes "lock \<in> {kick_lock, change_lock, disable_lock, prescale_lock}"
  shows "(wdt_stage (wdt lock) \<noteq> 3 \<longrightarrow>
            ar7_wdt_write (4 * (lock + 1)) val wdt = ([UNEXPECTED, MISSING], wdt)) \<and>
         snd (ar7_wdt_write (4 * (lock + 1)) val wdt) = wdt \<and>
         (case unlock_stage lock val of
            None \<Rightarrow> ar7_wdt_write (4 * lock) val wdt = ([], wdt)
          | Some stage \<Rightarrow>
              wdt_stage (snd (ar7_wdt_write (4 * lock) val wdt) lock) = stage \<and>
              ar7_wdt_write (4 * lock) val wdt =
                ([], wdt(lock := snd (ar7_wdt_write (4 * lock) val wdt) lock)))"
proof -
  from assms have l: "lock = 0 \<or> lock = 2 \<or> lock = 4 \<or> lock = 6" by simp
  show ?thesis
    using wdt_value_locked [OF _ l] wdt_value_frame [OF l] wdt_lock_write [OF l] by blast
qed

theorem wdt_lock_sequencing_witness:
  "ar7_wdt_write 0x1c 0x5A5A (\<lambda>_. 0) = ([UNEXPECTED, MISSING], \<lambda>_. 0) \<and>
   wdt_stage (snd (ar7_wdt_write 0x18 0x5A5A (\<lambda>_. 0)) prescale_lock) = 1 \<and>
   wdt_stage (snd (ar7_wdt_write 0x18 0xA5A5 (snd (ar7_wdt_write 0x18 0x5A5A (\<lambda>_. 0)))) prescale_lock) = 3"
proof -
  let ?w1 = "snd (ar7_wdt_write 0x18 0x5A5A (\<lambda>_. 0))"
  have a: "ar7_wdt_write 0x1c 0x5A5A (\<lambda>_. 0) = ([UNEXPECTED, MISSING], \<lambda>_. 0)"
    and b: "wdt_stage (?w1 prescale_lock) = 1"
    using wdt_lock_sequencing [of prescale_lock "\<lambda>_. 0" "0x5A5A"]
    by (auto simp add: wdt_stage_def unlock_stage_def)
  have c: "wdt_stage (snd (ar7_wdt_write 0x18 0xA5A5 ?w1) prescale_lock) = 3"
    using wdt_lock_sequencing [of prescale_lock ?w1 "0xA5A5"]
    by (auto simp add: unlock_stage_def)
  from a b c show ?thesis by simp
qed

section \<open>Interrupt intake and gating\<close>

lemma mask_test:
  "(w :: 32 word) AND 128 \<noteq> 0 \<longleftrightarrow> bit w 7"
  "(w :: 32 word) AND 256 \<noteq> 0 \<longleftrightarrow> bit w 8"
  "(w :: 32 word) AND 524288 \<noteq> 0 \<longleftrightarrow> bit w 19"
  using and_exp_eq_0_iff_not_bit [of w 7] and_exp_eq_0_iff_not_bit [of w 8]
    and_exp_eq_0_iff_not_bit [of w 19]
  by simp_all

lemma ar7_irq_enabled:
  assumes "l = 15 \<or> l = 16 \<or> l = 27" and "bit (intmask s 0) (nat (l - 8))"
  shows "ar7_irq l 1 s =
           s\<lparr>intc := (intc s)(0x10 := push_bit 16 (word_of_int (l - 8)) OR word_of_int (l - 8)),
             CP0_Cause := CP0_Cause s OR 0x00000400, hw_irq0 := True\<rparr>"
  using assms
  by (elim disjE) (simp_all add: ar7_irq_def cpu_interrupt_def mask_test)

lemma ar7_irq_disabled:
  assumes "l = 15 \<or> l = 16 \<or> l = 27" and "\<not> bit (intmask s 0) (nat (l - 8))"
  shows "ar7_irq l 1 s = s"
  using assms
  by (elim disjE) (simp_all add: ar7_irq_def cpu_interrupt_def mask_test)

lemma ar7_irq_41: "ar7_irq 41 1 s = s"
  by (simp add: ar7_irq_def)

lemma intmask_enable_set: "intmask (ar7_intc_write 8 v s) 0 = intmask s 0 OR v"
  by (simp add: ar7_intc_write_def)

text \<open>
  Claim C1, as the code has it.  For every line \<open>l\<close> in \<open>{15, 16, 27}\<close> asserted with
  \<open>level = 1\<close> while bit \<open>l - 8\<close> of \<open>intmask[0]\<close> is set, \<open>ar7_irq\<close> writes
  \<open>((l - 8) << 16) | (l - 8)\<close> (the channel in both halves, not the line number in the
  upper one) into INTC word index 16, sets CPU Cause bit \<open>0x400\<close> and asserts hardware
  interrupt 0.  Line 41 has channel 33, which the guard \<open>channel < 32\<close> excludes:
  asserting it changes nothing.  In particular, after writing \<open>0x00000080\<close> (bit 7, the
  channel of line 15) to INTC enable-set-1 and then raising line 15, a read of INTC word
  index 16 returns \<open>0x00070007\<close>.
\<close>

theorem ar7_irq_assert:
  assumes "l \<in> {15, 16, 27}" and "bit (intmask s 0) (nat (l - 8))"
  shows "ar7_irq l 1 s =
           s\<lparr>intc := (intc s)(0x10 := push_bit 16 (word_of_int (l - 8)) OR word_of_int (l - 8)),
             CP0_Cause := CP0_Cause s OR 0x00000400, hw_irq0 := True\<rparr> \<and>
         ar7_irq 41 1 s = s \<and>
         ar7_intc_read 0x10 (ar7_irq 15 1 (ar7_intc_write 8 0x00000080 s)) = 0x00070007"
proof -
  from assms(1) have l: "l = 15 \<or> l = 16 \<or> l = 27" by simp
  have "bit (intmask (ar7_intc_write 8 0x00000080 s) 0) (nat (15 - 8))"
    by (simp add: intmask_enable_set bit_simps)
  then have "ar7_intc_read 0x10 (ar7_irq 15 1 (ar7_intc_write 8 0x00000080 s)) = 0x00070007"
    by (simp add: ar7_irq_enabled ar7_intc_read_def)
  with ar7_irq_enabled [OF l assms(2)] ar7_irq_41 show ?thesis by simp
qed

theorem ar7_irq_assert_witness:
  "ar7_intc_read 0x10 (ar7_irq 27 1 (ar7_intc_write 8 0x00080000 av_init)) = 0x00130013 \<and>
   CP0_Cause (ar7_irq 27 1 (ar7_intc_write 8 0x00080000 av_init)) = 0x00000400 \<and>
   hw_irq0 (ar7_irq 27 1 (ar7_intc_write 8 0x00080000 av_init))"
proof -
  have "(27::int) \<in> {15, 16, 27}" by simp
  moreover have "bit (intmask (ar7_intc_write 8 0x00080000 av_init) 0) (nat (27 - 8))"
    by (simp add: intmask_enable_set av_init_def bit_simps)
  ultimately show ?thesis
    using ar7_irq_assert [of 27 "ar7_intc_write 8 0x00080000 av_init"]
    by (simp add: ar7_intc_read_def ar7_intc_write_def av_init_def)
qed

text \<open>
  The claim as the specification states it fails: after \<open>0x00008000\<close> is written to
  enable-set-1, line 15 (channel 7) is still masked and word index 16 keeps its value 0
  instead of \<open>0x0007000f\<close>; and with channel 7 enabled the word written is
  \<open>0x00070007\<close>, not \<open>(15 << 16) | 7\<close>.
\<close>

theorem ar7_irq_assert_counterexample:
  "ar7_intc_read 0x10 (ar7_irq 15 1 (ar7_intc_write 8 0x00008000 av_init)) \<noteq> 0x0007000f \<and>
   ar7_intc_read 0x10 (ar7_irq 15 1 (ar7_intc_write 8 0x00000080 av_init)) \<noteq> (push_bit 16 15 OR 7)"
  by (simp add: ar7_irq_def ar7_intc_read_def ar7_intc_write_def av_init_def cpu_interrupt_def)

text \<open>
  Claim C2, as the code has it.  For every channel \<open>c\<close> in \<open>{7, 8, 19}\<close> (lines 15, 16
  and 27): asserting line \<open>c + 8\<close> with \<open>level = 1\<close> while bit \<open>c\<close> of \<open>intmask[0]\<close> is
  clear changes nothing at all (hardware interrupt 0, the Cause register and INTC word
  index 16 stay as they were); and after any value with bit \<open>c\<close> set is written to INTC
  enable-set-1 (word index 8), asserting the line raises hardware interrupt 0, sets
  Cause bit \<open>0x400\<close> and latches \<open>(c << 16) | c\<close> in word index 16.
\<close>

theorem irq_gating:
  assumes "c \<in> {7, 8, 19}"
  shows "(\<not> bit (intmask s 0) c \<longrightarrow> ar7_irq (int c + 8) 1 s = s) \<and>
         (bit v c \<longrightarrow>
            hw_irq0 (ar7_irq (int c + 8) 1 (ar7_intc_write 8 v s)) \<and>
            bit (CP0_Cause (ar7_irq (int c + 8) 1 (ar7_intc_write 8 v s))) 10 \<and>
            ar7_intc_read 0x10 (ar7_irq (int c + 8) 1 (ar7_intc_write 8 v s)) = push_bit 16 (of_nat c) OR of_nat c)"
proof -
  from assms have l: "int c + 8 = 15 \<or> int c + 8 = 16 \<or> int c + 8 = 27" by auto
  have c: "nat (int c + 8 - 8) = c" by simp
  have off: "\<not> bit (intmask s 0) c \<Longrightarrow> ar7_irq (int c + 8) 1 s = s"
    using ar7_irq_disabled [OF l, of s] by simp
  have on: "hw_irq0 (ar7_irq (int c + 8) 1 (ar7_intc_write 8 v s)) \<and>
            bit (CP0_Cause (ar7_irq (int c + 8) 1 (ar7_intc_write 8 v s))) 10 \<and>
            ar7_intc_read 0x10 (ar7_irq (int c + 8) 1 (ar7_intc_write 8 v s)) = push_bit 16 (of_nat c) OR of_nat c"
    if "bit v c"
  proof -
    from that have "bit (intmask (ar7_intc_write 8 v s) 0) (nat (int c + 8 - 8))"
      by (simp add: intmask_enable_set bit_simps)
    from ar7_irq_enabled [OF l this] show ?thesis
      by (simp add: bit_simps ar7_intc_read_def)
  qed
  from off on show ?thesis by blast
qed

theorem irq_gating_witness:
  "ar7_irq 15 1 av_init = av_init \<and>
   hw_irq0 (ar7_irq 15 1 (ar7_intc_write 8 0x00000080 av_init)) \<and>
   bit (CP0_Cause (ar7_irq 15 1 (ar7_intc_write 8 0x00000080 av_init))) 10"
proof -
  have "(7::nat) \<in> {7, 8, 19}" by simp
  moreover have "\<not> bit (intmask av_init 0) 7" by (simp add: av_init_def)
  moreover have "bit (0x00000080 :: 32 word) 7" by (simp add: bit_simps)
  ultimately show ?thesis
    using irq_gating [of 7 av_init "0x00000080"] by simp
qed

text \<open>
  For channel 33 (line 41) the claim fails: with every bit of both enable-set registers
  written, asserting line 41 leaves hardware interrupt 0 and the Cause bit clear.
\<close>

theorem irq_gating_counterexample:
  "\<not> hw_irq0 (ar7_irq 41 1 (ar7_intc_write 9 0xffffffff (ar7_intc_write 8 0xffffffff av_init))) \<and>
   \<not> bit (CP0_Cause (ar7_irq 41 1 (ar7_intc_write 9 0xffffffff (ar7_intc_write 8 0xffffffff av_init)))) 10"
  by (simp add: ar7_irq_def ar7_intc_write_def av_init_def)

section \<open>CPMAC: the channel of a TX_INTMASK_SET write\<close>

lemma cpmac_interrupt_lines: "cpmac_interrupt 0 = 27 \<and> cpmac_interrupt 1 = 41"
  by (simp add: cpmac_interrupt_def)

lemma tx_intmask_channel_bounds:
  "2 ^ k \<le> unat val \<Longrightarrow> unat val < 2 ^ Suc k \<Longrightarrow>
     tx_intmask_channel ch val = Some (ch + of_nat k)"
proof (induction k arbitrary: ch val)
  case 0
  then have "unat val = 1" by simp
  then have "val = 1" by (metis unat_1 word_unat_eq_iff)
  then show ?case by (subst tx_intmask_channel.simps) simp
next
  case (Suc k)
  then have ne: "val \<noteq> 1"
    by (metis One_nat_def Suc_1 Suc_le_eq not_less_eq_eq one_less_power power_Suc0_right unat_1 zero_less_Suc)
  have d: "unat (val div 2) = unat val div 2" by (simp add: unat_div)
  from Suc.prems have "2 ^ k \<le> unat (val div 2)" "unat (val div 2) < 2 ^ Suc k"
    unfolding d by auto
  from Suc.IH [OF this] ne show ?case
    by (subst tx_intmask_channel.simps) (simp add: add.assoc)
qed

lemma highest_bit_bounds:
  fixes v :: "32 word"
  assumes "2 ^ k \<le> unat v" "unat v < 2 ^ Suc k"
  shows "k < 32 \<and> bit v k \<and> (\<forall>n. k < n \<longrightarrow> \<not> bit v n)"
proof -
  have "unat v < 2 ^ 32" using unsigned_less [of v] by simp
  with assms(1) have "(2::nat) ^ k < 2 ^ 32" by linarith
  from power_less_imp_less_exp [OF _ this] have k: "k < 32" by simp
  have "unat v div 2 ^ k = 1"
    using assms by (simp add: Suc_times_mod_eq div_eq_0_iff div_nat_eqI mult.commute)
  then have "bit (unat v) k" by (simp add: bit_iff_odd)
  then have bk: "bit v k" by (simp add: bit_unsigned_iff)
  have "\<not> bit v n" if "k < n" for n
  proof -
    from that have "(2::nat) ^ Suc k \<le> 2 ^ n" by (intro power_increasing) auto
    with assms(2) have "unat v div 2 ^ n = 0" by simp
    then have "\<not> bit (unat v) n" by (simp add: bit_iff_odd)
    then show ?thesis by (auto simp add: bit_unsigned_iff dest: bit_imp_possible_bit)
  qed
  with k bk show ?thesis by blast
qed

text \<open>
  Claim C5, as the code has it.  For every write of a value \<open>v \<noteq> 0\<close> to TX_INTMASK_SET
  (offset 0x0178) of either CPMAC instance, the channel search returns, the write returns
  normally, and the channel number added to \<open>TX_INT_OR\<close> and OR-ed into MAC_IN_VECTOR is
  the index \<open>k\<close> of the highest set bit of \<open>v\<close> (bit \<open>k\<close> is set and no bit above it is);
  it is the lowest set bit only when \<open>v\<close> has a single bit set.  The CPMAC interrupt line
  of the instance (\<open>cpmac_interrupt\<close>: 27 or 41) is then asserted: \<open>ar7_irq\<close> runs on it
  with level 1.
\<close>

theorem tx_intmask_set_channel:
  assumes "v \<noteq> 0"
  shows "\<exists>k<32. bit v k \<and> (\<forall>n. k < n \<longrightarrow> \<not> bit v n) \<and>
           ar7_cpmac_write index CPMAC_TX_INTMASK_SET v s =
             Inr (ar7_irq (cpmac_interrupt index) 1
                    (cpmac_update index
                       (reg_set (reg_write (cpmac index s) CPMAC_TX_INTMASK_SET v)
                          CPMAC_MAC_IN_VECTOR (MAC_IN_VECTOR_TX_INT_OR + of_nat k)) s))"
proof -
  from assms have "1 \<le> unat v" by (simp add: Suc_le_eq unat_gt_0)
  from ex_power_ivl1 [OF order_refl this]
  obtain k where k: "2 ^ k \<le> unat v" "unat v < 2 ^ Suc k" by auto
  have "ar7_cpmac_write index CPMAC_TX_INTMASK_SET v s =
             Inr (ar7_irq (cpmac_interrupt index) 1
                    (cpmac_update index
                       (reg_set (reg_write (cpmac index s) CPMAC_TX_INTMASK_SET v)
                          CPMAC_MAC_IN_VECTOR (MAC_IN_VECTOR_TX_INT_OR + of_nat k)) s))"
    using assms
    by (simp add: ar7_cpmac_write_def tx_intmask_channel_bounds [OF k] cpmac_cpmac_update
        cpmac_update_twice)
  with highest_bit_bounds [OF k] show ?thesis by blast
qed

theorem tx_intmask_set_channel_witness:
  "(6 :: 32 word) \<noteq> 0 \<and>
   (\<exists>s'. ar7_cpmac_write 0 CPMAC_TX_INTMASK_SET 6 (ar7_intc_write 8 0x00080000 av_init) = Inr s' \<and>
      reg_read (cpmac 0 s') CPMAC_MAC_IN_VECTOR = 0x10002 \<and> hw_irq0 s' \<and>
      ar7_intc_read 0x10 s' = 0x00130013)"
proof -
  let ?s = "ar7_intc_write 8 0x00080000 av_init"
  have ne: "(6 :: 32 word) \<noteq> 0" by simp
  have s: "intmask ?s 0 = 0x00080000" "cpmac 0 ?s = (\<lambda>_. 0)"
    by (simp_all add: ar7_intc_write_def av_init_def cpmac_def)
  have "ar7_cpmac_write 0 CPMAC_TX_INTMASK_SET 6 ?s =
          Inr (ar7_irq 27 1 (cpmac_update 0
                 (reg_set (reg_write (\<lambda>_. 0) CPMAC_TX_INTMASK_SET 6) CPMAC_MAC_IN_VECTOR 0x10002) ?s))"
    by (simp add: ar7_cpmac_write_def tx_intmask_channel.simps cpmac_interrupt_def
        cpmac_cpmac_update cpmac_update_twice s)
  moreover have "reg_read (reg_set (reg_write (\<lambda>_. 0) CPMAC_TX_INTMASK_SET 6) CPMAC_MAC_IN_VECTOR 0x10002)
                   CPMAC_MAC_IN_VECTOR = 0x10002"
    by (simp add: reg_set_def reg_read_write_same reg_read_write_other) (simp add: reg_read_def le32_to_cpu_def)
  moreover have "intmask (cpmac_update 0 c ?s) 0 = 0x00080000" for c
    by (simp add: cpmac_update_def s)
  ultimately show ?thesis
    using tx_intmask_set_channel [OF ne, of 0 ?s]
    by (simp add: ar7_irq_def cpu_interrupt_def ar7_intc_read_def cpmac_def cpmac_update_def)
qed

text \<open>
  The claim with the lowest set bit fails at \<open>v = 6\<close>: its lowest set bit is bit 1, and
  MAC_IN_VECTOR becomes \<open>0x10002\<close>, channel 2.
\<close>

theorem tx_intmask_set_channel_counterexample:
  "\<not> bit (6 :: 32 word) 0 \<and> bit (6 :: 32 word) 1 \<and>
   (\<exists>s'. ar7_cpmac_write 0 CPMAC_TX_INTMASK_SET 6 av_init = Inr s' \<and>
      reg_read (cpmac 0 s') CPMAC_MAC_IN_VECTOR = 0x10002)"
proof -
  have s: "cpmac 0 av_init = (\<lambda>_. 0)"
    by (simp add: av_init_def cpmac_def)
  have "ar7_cpmac_write 0 CPMAC_TX_INTMASK_SET 6 av_init =
          Inr (ar7_irq 27 1 (cpmac_update 0
                 (reg_set (reg_write (\<lambda>_. 0) CPMAC_TX_INTMASK_SET 6) CPMAC_MAC_IN_VECTOR 0x10002) av_init))"
    by (simp add: ar7_cpmac_write_def tx_intmask_channel.simps cpmac_interrupt_def
        cpmac_cpmac_update cpmac_update_twice s)
  moreover have "reg_read (reg_set (reg_write (\<lambda>_. 0) CPMAC_TX_INTMASK_SET 6) CPMAC_MAC_IN_VECTOR 0x10002)
                   CPMAC_MAC_IN_VECTOR = 0x10002"
    by (simp add: reg_set_def reg_read_write_same reg_read_write_other) (simp add: reg_read_def le32_to_cpu_def)
  ultimately show ?thesis
    by (simp add: ar7_irq_def cpu_interrupt_def cpmac_def cpmac_update_def av_init_def bit_simps)
qed

section \<open>MDIO: renegotiation\<close>

lemma ucast16_and_not:
  "(ucast ((ucast (x :: 16 word) :: 32 word) AND NOT m) :: 16 word) = x AND NOT (ucast m)"
  by (rule bit_word_eqI) (auto simp add: bit_simps)

lemma ucast16_or:
  "(ucast ((ucast (x :: 16 word) :: 32 word) OR m) :: 16 word) = x OR ucast m"
  by (rule bit_word_eqI) (auto simp add: bit_simps)

lemma phy_truncations:
  "(ucast ((ucast (x :: 16 word) :: 32 word) AND - 513) :: 16 word) = x AND - 513"
  "(ucast ((ucast (x :: 16 word) :: 32 word) OR 33792) :: 16 word) = x OR 33792"
  using ucast16_and_not [of x 512] ucast16_or [of x 33792] by simp_all

text \<open>
  Claim C10, as the code has it.  When a USERACCESS0 write (word index \<open>0x20\<close>) with
  GO=1, WRITE=0, PHYADDR=31 and REGADDR=0 (CONTROL) finds the RENEGOTIATE bit set and the
  RESET bit clear in the PHY control register: RENEGOTIATE is cleared there, the PHY
  status register becomes \<open>0x782d\<close> (auto-negotiation complete, link up, capable), the
  remote-advertise register becomes advertise | ISOLATE | RESET, and the MDIO LINK
  register, which is word index 3 (byte offset \<open>0x0c\<close> of \<open>mdio_t\<close>), is set to
  \<open>0x80000000\<close>.  Word index 8 keeps its value, and USERACCESS0 reads back the control
  value with RENEGOTIATE (and GO) clear.
\<close>

theorem mdio_renegotiate:
  assumes go: "val AND MDIO_USERACCESS_GO \<noteq> 0"
    and rd: "val AND MDIO_USERACCESS_WRITE = 0"
    and phy: "drop_bit 16 (val AND MDIO_USERACCESS_PHYADR) = 31"
    and reg: "drop_bit 21 (val AND MDIO_USERACCESS_REGADR) = PHY_CONTROL_REG"
    and ren: "(ucast (mdio_useraccess_data s 0 0) :: 32 word) AND RENEGOTIATE \<noteq> 0"
    and res: "(ucast (mdio_useraccess_data s 0 0) :: 32 word) AND PHY_RESET = 0"
  shows "mdio_useraccess_data (ar7_mdio_write 0x20 val s) 0 0 = mdio_useraccess_data s 0 0 AND NOT 0x0200 \<and>
         mdio_useraccess_data (ar7_mdio_write 0x20 val s) 0 1 = 0x782d \<and>
         mdio_useraccess_data (ar7_mdio_write 0x20 val s) 0 5 = mdio_useraccess_data s 0 4 OR 0x0400 OR 0x8000 \<and>
         mdio (ar7_mdio_write 0x20 val s) 3 = 0x80000000 \<and>
         mdio (ar7_mdio_write 0x20 val s) 8 = mdio s 8 \<and>
         mdio (ar7_mdio_write 0x20 val s) 0x20 = ucast (mdio_useraccess_data s 0 0) AND NOT RENEGOTIATE"
proof -
  have "ar7_mdio_write 0x20 val s =
          s\<lparr>mdio_regaddr := 0, mdio_phyaddr := 0, mdio_data := val AND MDIO_USERACCESS_DATA,
            mdio_useraccess_data := (mdio_useraccess_data s)
              (0 := (mdio_useraccess_data s 0)
                 (0 := mdio_useraccess_data s 0 0 AND NOT 0x0200, 1 := 0x782d,
                  5 := mdio_useraccess_data s 0 4 OR 0x0400 OR 0x8000)),
            mdio := (mdio s)(3 := 0x80000000,
                             0x20 := ucast (mdio_useraccess_data s 0 0) AND NOT RENEGOTIATE)\<rparr>"
    using assms
    by (simp add: ar7_mdio_write_def Let_def phy_truncations)
  then show ?thesis by (simp add: or.assoc)
qed

theorem mdio_renegotiate_witness:
  "mdio_useraccess_data
     (ar7_mdio_write 0x20 0x801F0000 (ar7_mdio_write 0x20 0xC01F1200 av_init)) 0 0 = 0x1000 \<and>
   mdio_useraccess_data
     (ar7_mdio_write 0x20 0x801F0000 (ar7_mdio_write 0x20 0xC01F1200 av_init)) 0 1 = 0x782d \<and>
   mdio_useraccess_data
     (ar7_mdio_write 0x20 0x801F0000 (ar7_mdio_write 0x20 0xC01F1200 av_init)) 0 5 = 0x85e1 \<and>
   mdio (ar7_mdio_write 0x20 0x801F0000 (ar7_mdio_write 0x20 0xC01F1200 av_init)) 3 = 0x80000000"
proof -
  let ?s = "ar7_mdio_write 0x20 0xC01F1200 av_init"
  have d: "mdio_useraccess_data ?s 0 0 = 0x1200" "mdio_useraccess_data ?s 0 4 = 0x01e1"
    by (simp_all add: ar7_mdio_write_def av_init_def Let_def)
  have "(0x801F0000 :: 32 word) AND MDIO_USERACCESS_GO \<noteq> 0"
    "(0x801F0000 :: 32 word) AND MDIO_USERACCESS_WRITE = 0"
    "drop_bit 16 ((0x801F0000 :: 32 word) AND MDIO_USERACCESS_PHYADR) = 31"
    "drop_bit 21 ((0x801F0000 :: 32 word) AND MDIO_USERACCESS_REGADR) = PHY_CONTROL_REG"
    "(ucast (mdio_useraccess_data ?s 0 0) :: 32 word) AND RENEGOTIATE \<noteq> 0"
    "(ucast (mdio_useraccess_data ?s 0 0) :: 32 word) AND PHY_RESET = 0"
    by (simp_all add: d)
  from mdio_renegotiate [OF this] show ?thesis by (simp add: d)
qed

text \<open>
  The claim as the specification states it fails twice.  After the renegotiation it is
  word index 3 that holds \<open>0x80000000\<close>, and word index 8 does not.  And when the RESET
  bit is set next to RENEGOTIATE, the reset branch comes first: RENEGOTIATE stays set
  and the LINK register is not written.
\<close>

theorem mdio_renegotiate_counterexample:
  "mdio (ar7_mdio_write 0x20 0x801F0000 (ar7_mdio_write 0x20 0xC01F1200 av_init)) 8 \<noteq> 0x80000000 \<and>
   mdio (ar7_mdio_write 0x20 0x801F0000 (ar7_mdio_write 0x20 0xC01F1200 av_init)) 3 = 0x80000000 \<and>
   (ucast (mdio_useraccess_data (ar7_mdio_write 0x20 0xC01F8200 av_init) 0 0) :: 32 word) AND RENEGOTIATE \<noteq> 0 \<and>
   (ucast (mdio_useraccess_data
      (ar7_mdio_write 0x20 0x801F0000 (ar7_mdio_write 0x20 0xC01F8200 av_init)) 0 0) :: 32 word)
        AND RENEGOTIATE \<noteq> 0 \<and>
   mdio (ar7_mdio_write 0x20 0x801F0000 (ar7_mdio_write 0x20 0xC01F8200 av_init)) 3 \<noteq> 0x80000000"
  by (simp add: ar7_mdio_write_def av_init_def Let_def)

section \<open>CPMAC: receiving a frame\<close>

text \<open>The two address classes that have a counter, as \<open>ar7_nic_receive\<close> tests them.\<close>

definition is_broadcast :: "(nat \<Rightarrow> 8 word) \<Rightarrow> bool" where
  "is_broadcast buf \<longleftrightarrow> map buf [0..<6] = replicate 6 0xff"

definition is_multicast :: "(nat \<Rightarrow> 8 word) \<Rightarrow> bool" where
  "is_multicast buf \<longleftrightarrow> buf 0 AND 0x01 \<noteq> 0"

lemma rx_statistics_other:
  assumes "b + 4 \<le> 0x200 \<or> 0x224 \<le> b"
  shows "reg_read (rx_statistics buf sz c) b = reg_read c b"
proof -
  have o: "reg_read (reg_inc c' a) b = reg_read c' b"
    if "a = 0x200 \<or> a = 0x204 \<or> a = 0x208 \<or> a = 0x218 \<or> a = 0x220" for a c'
    using that assms by (intro reg_read_inc_other) auto
  show ?thesis by (simp add: rx_statistics_def Let_def o)
qed

lemma rx_statistics_good:
  "reg_read (rx_statistics buf sz c) CPMAC_RXGOODFRAMES = reg_read c CPMAC_RXGOODFRAMES + 1"
  by (simp add: rx_statistics_def Let_def reg_read_inc_same reg_read_inc_other)

lemma rx_statistics_broadcast:
  "reg_read (rx_statistics buf sz c) CPMAC_RXBROADCASTFRAMES =
     reg_read c CPMAC_RXBROADCASTFRAMES + (if is_broadcast buf then 1 else 0)"
  by (simp add: rx_statistics_def Let_def reg_read_inc_same reg_read_inc_other is_broadcast_def)

lemma rx_statistics_multicast:
  "reg_read (rx_statistics buf sz c) CPMAC_RXMULTICASTFRAMES =
     reg_read c CPMAC_RXMULTICASTFRAMES +
       (if is_broadcast buf then 0 else if is_multicast buf then 1 else 0)"
  by (simp add: rx_statistics_def Let_def reg_read_inc_same reg_read_inc_other is_broadcast_def is_multicast_def)

lemma rx_statistics_undersized:
  "reg_read (rx_statistics buf sz c) CPMAC_RXUNDERSIZEDFRAMES =
     reg_read c CPMAC_RXUNDERSIZEDFRAMES + (if sz < 64 then 1 else 0)"
  by (simp add: rx_statistics_def Let_def reg_read_inc_same reg_read_inc_other)

lemma rx_statistics_oversized:
  "reg_read (rx_statistics buf sz c) CPMAC_RXOVERSIZEDFRAMES =
     reg_read c CPMAC_RXOVERSIZEDFRAMES + (if 1514 < sz then 1 else 0)"
  by (simp add: rx_statistics_def Let_def reg_read_inc_same reg_read_inc_other)

lemma cpmac_update_frame:
  "ram (cpmac_update index c s) = ram s \<and> intc (cpmac_update index c s) = intc s \<and>
   CP0_Cause (cpmac_update index c s) = CP0_Cause s \<and> hw_irq0 (cpmac_update index c s) = hw_irq0 s \<and>
   sent (cpmac_update index c s) = sent s \<and> intmask (cpmac_update index c s) = intmask s"
  by (simp add: cpmac_update_def)

lemma nic_receive_no_buffer:
  "reg_read (cpmac index s) CPMAC_RX0_HDP = 0 \<Longrightarrow>
     ar7_nic_receive index buf sz s = cpmac_update index (rx_statistics buf sz (cpmac index s)) s"
  by (simp add: ar7_nic_receive_def Let_def rx_statistics_other)

lemma replicate6: "replicate 6 x = [x, x, x, x, x, x]"
  by (simp add: numeral_eq_Suc)

text \<open>
  Claim C7.  When a frame is delivered while RX0_HDP is 0, nothing but the CPMAC bank of
  the instance changes: guest memory is not written, and the Cause register, hardware
  interrupt 0 and the INTC words stay as they were (\<open>ar7_irq\<close> is not run).  In the
  bank RX0_HDP still reads 0, RXGOODFRAMES is one higher although the frame is dropped,
  and so is the counter of the frame's class (broadcast, else multicast) and of its size
  (undersized below 64, oversized above 1514); the other of these counters keep their
  values.
\<close>

theorem rx_no_buffer:
  fixes index buf sz s
  defines "s' \<equiv> ar7_nic_receive index buf sz s"
  assumes "reg_read (cpmac index s) CPMAC_RX0_HDP = 0"
  shows "s' = cpmac_update index (cpmac index s') s \<and>
         ram s' = ram s \<and> hw_irq0 s' = hw_irq0 s \<and> CP0_Cause s' = CP0_Cause s \<and> intc s' = intc s \<and>
         reg_read (cpmac index s') CPMAC_RX0_HDP = 0 \<and>
         reg_read (cpmac index s') CPMAC_RXGOODFRAMES = reg_read (cpmac index s) CPMAC_RXGOODFRAMES + 1 \<and>
         reg_read (cpmac index s') CPMAC_RXBROADCASTFRAMES =
           reg_read (cpmac index s) CPMAC_RXBROADCASTFRAMES + (if is_broadcast buf then 1 else 0) \<and>
         reg_read (cpmac index s') CPMAC_RXMULTICASTFRAMES =
           reg_read (cpmac index s) CPMAC_RXMULTICASTFRAMES +
             (if is_broadcast buf then 0 else if is_multicast buf then 1 else 0) \<and>
         reg_read (cpmac index s') CPMAC_RXUNDERSIZEDFRAMES =
           reg_read (cpmac index s) CPMAC_RXUNDERSIZEDFRAMES + (if sz < 64 then 1 else 0) \<and>
         reg_read (cpmac index s') CPMAC_RXOVERSIZEDFRAMES =
           reg_read (cpmac index s) CPMAC_RXOVERSIZEDFRAMES + (if 1514 < sz then 1 else 0)"
proof -
  have e: "s' = cpmac_update index (rx_statistics buf sz (cpmac index s)) s"
    unfolding s'_def by (rule nic_receive_no_buffer) (rule assms(2))
  have c: "cpmac index s' = rx_statistics buf sz (cpmac index s)"
    by (simp add: e cpmac_cpmac_update)
  have h: "reg_read (rx_statistics buf sz (cpmac index s)) CPMAC_RX0_HDP = 0"
    using assms(2) by (simp add: rx_statistics_other)
  show ?thesis
    unfolding c
    unfolding e
    by (simp only: cpmac_update_frame rx_statistics_good rx_statistics_broadcast rx_statistics_multicast
        rx_statistics_undersized rx_statistics_oversized h simp_thms)
qed

theorem rx_no_buffer_witness:
  "reg_read (cpmac 0 (ar7_nic_receive 0 (\<lambda>_. 0xff) 100 (ar7_intc_write 8 0x00080000 av_init)))
     CPMAC_RXGOODFRAMES = 1 \<and>
   reg_read (cpmac 0 (ar7_nic_receive 0 (\<lambda>_. 0xff) 100 (ar7_intc_write 8 0x00080000 av_init)))
     CPMAC_RXBROADCASTFRAMES = 1 \<and>
   reg_read (cpmac 0 (ar7_nic_receive 0 (\<lambda>_. 0xff) 100 (ar7_intc_write 8 0x00080000 av_init)))
     CPMAC_RX0_HDP = 0 \<and>
   ram (ar7_nic_receive 0 (\<lambda>_. 0xff) 100 (ar7_intc_write 8 0x00080000 av_init)) = (\<lambda>_. 0) \<and>
   \<not> hw_irq0 (ar7_nic_receive 0 (\<lambda>_. 0xff) 100 (ar7_intc_write 8 0x00080000 av_init))"
proof -
  let ?s = "ar7_intc_write 8 0x00080000 av_init"
  have c: "cpmac 0 ?s = (\<lambda>_. 0)" "ram ?s = (\<lambda>_. 0)" "\<not> hw_irq0 ?s"
    by (simp_all add: ar7_intc_write_def av_init_def cpmac_def)
  have z: "reg_read (\<lambda>_. 0) a = 0" for a
    by (simp add: reg_read_def le32_to_cpu_def)
  have "reg_read (cpmac 0 ?s) CPMAC_RX0_HDP = 0" by (simp add: c z)
  from rx_no_buffer [OF this, of "\<lambda>_. 0xff" 100] show ?thesis
    by (simp add: c z is_broadcast_def upt_rec replicate6)
qed

section \<open>Guest memory: what a write leaves behind\<close>

lemma write_outside:
  "(\<And>i. i < length bs \<Longrightarrow> x \<noteq> a + of_nat i) \<Longrightarrow> cpu_physical_memory_write m a bs x = m x"
proof (induction bs arbitrary: m a)
  case Nil
  then show ?case by simp
next
  case (Cons b bs)
  have x: "x \<noteq> a" using Cons.prems [of 0] by simp
  have "x \<noteq> a + 1 + of_nat i" if "i < length bs" for i
    using Cons.prems [of "Suc i"] that by (simp add: ac_simps)
  then have "cpu_physical_memory_write (m(a := b)) (a + 1) bs x = (m(a := b)) x"
    by (rule Cons.IH)
  with x show ?case by simp
qed

lemma word32_offset_neq:
  fixes a :: "32 word"
  assumes "0 < k" "k < 2 ^ 32"
  shows "a \<noteq> a + of_nat k"
proof
  assume "a = a + of_nat k"
  then have "(of_nat k :: 32 word) = 0" by simp
  then have "unat (of_nat k :: 32 word) = 0" by simp
  with assms show False by (simp add: unat_of_nat)
qed

lemma write_inside:
  "length bs \<le> 2 ^ 32 \<Longrightarrow> i < length bs \<Longrightarrow>
     cpu_physical_memory_write m a bs (a + of_nat i) = bs ! i"
proof (induction bs arbitrary: m a i)
  case Nil
  then show ?case by simp
next
  case (Cons b bs)
  show ?case
  proof (cases i)
    case 0
    have "cpu_physical_memory_write (m(a := b)) (a + 1) bs a = (m(a := b)) a"
    proof (rule write_outside)
      fix j assume "j < length bs"
      with Cons.prems(1) have "0 < Suc j" "Suc j < 2 ^ 32" by auto
      from word32_offset_neq [OF this, of a] show "a \<noteq> a + 1 + of_nat j"
        by (simp add: ac_simps)
    qed
    with 0 show ?thesis by simp
  next
    case (Suc j)
    with Cons.prems have "length bs \<le> 2 ^ 32" "j < length bs" by auto
    then have "cpu_physical_memory_write (m(a := b)) (a + 1) bs (a + 1 + of_nat j) = bs ! j"
      by (rule Cons.IH)
    moreover have "a + of_nat i = a + 1 + of_nat j" using Suc by simp
    ultimately show ?thesis using Suc by (simp add: add.assoc)
  qed
qed

lemma read_write_same:
  "length bs \<le> 2 ^ 32 \<Longrightarrow>
     cpu_physical_memory_read (cpu_physical_memory_write m a bs) a (length bs) = bs"
  by (rule nth_equalityI) (simp_all add: cpu_physical_memory_read_def write_inside)

lemma length_tcb_bytes: "length (tcb_bytes d) = 16"
  by (simp add: tcb_bytes_def)

lemma read_tcb_bytes:
  assumes "cpu_physical_memory_read m val 16 = tcb_bytes d"
  shows "read_tcb m val = d"
  unfolding read_tcb_def assms
  by (simp add: tcb_bytes_def upt4 le32_bytes)

lemma read_tcb_write: "read_tcb (cpu_physical_memory_write m val (tcb_bytes d)) val = d"
  using read_write_same [of "tcb_bytes d" m val]
  by (intro read_tcb_bytes) (simp add: length_tcb_bytes)

lemma ranges_disjoint:
  fixes buff val :: "32 word"
  assumes "16 \<le> unat (buff - val)" "unat (buff - val) + n \<le> 2 ^ 32" "i < n" "j < 16"
  shows "buff + of_nat i \<noteq> val + of_nat j"
proof
  assume "buff + of_nat i = val + of_nat j"
  then have e: "(buff - val) + of_nat i = of_nat j" by (simp add: algebra_simps)
  from assms have i: "unat (of_nat i :: 32 word) = i" by (simp add: unat_of_nat)
  from assms have j: "unat (of_nat j :: 32 word) = j" by (simp add: unat_of_nat)
  from assms i have "unat (buff - val) + unat (of_nat i :: 32 word) < 2 ^ LENGTH(32)" by simp
  then have "unat ((buff - val) + of_nat i) = unat (buff - val) + unat (of_nat i :: 32 word)"
    by (simp only: unat_add_lem)
  with e i j assms show False by simp
qed

section \<open>CPMAC: delivery into the receive descriptor\<close>

text \<open>The mode word \<open>ar7_nic_receive\<close> writes back, from the mode and \<open>next\<close> it read.\<close>

definition rx_mode :: "32 word \<Rightarrow> 32 word \<Rightarrow> int \<Rightarrow> 32 word" where
  "rx_mode old_mode nxt sz =
     (let mode3 = ((old_mode AND NOT CB_OWNERSHIP_BIT) OR (word_of_int sz AND CB_SIZE_MASK)) OR
                    (CB_SOF_BIT OR CB_EOF_BIT)
      in if nxt = 0 then mode3 OR CB_EOQ_BIT else mode3)"

lemma rx_mode_fresh:
  "rx_mode CB_OWNERSHIP_BIT nxt sz =
     (if nxt = 0 then CB_SOF_BIT OR CB_EOF_BIT OR (word_of_int sz AND CB_SIZE_MASK) OR CB_EOQ_BIT
      else CB_SOF_BIT OR CB_EOF_BIT OR (word_of_int sz AND CB_SIZE_MASK))"
  by (simp add: rx_mode_def Let_def ac_simps)

lemma rx_mode_not_owned: "rx_mode old_mode nxt sz AND CB_OWNERSHIP_BIT = 0"
proof -
  have "\<not> bit (rx_mode old_mode nxt sz) 29"
    by (auto simp add: rx_mode_def Let_def bit_simps CB_SIZE_MASK_def CB_SOF_BIT_def CB_EOF_BIT_def CB_EOQ_BIT_def
        bit_CB_OWNERSHIP_BIT)
  then show ?thesis
    using and_exp_eq_0_iff_not_bit [of "rx_mode old_mode nxt sz" 29] by (simp add: CB_OWNERSHIP_BIT_def)
qed

lemma nic_receive_deliver:
  assumes "reg_read (cpmac index s) CPMAC_RX0_HDP = val" and "val \<noteq> 0"
    and "tcb_mode (read_tcb (ram s) val) AND CB_OWNERSHIP_BIT \<noteq> 0"
  shows "ar7_nic_receive index buf sz s =
           ar7_irq (cpmac_interrupt index) 1
             (cpmac_update index
                (reg_set (reg_write (rx_statistics buf sz (cpmac index s)) CPMAC_RX0_HDP
                            (tcb_next (read_tcb (ram s) val)))
                   CPMAC_MAC_IN_VECTOR MAC_IN_VECTOR_RX_INT_OR)
                (s\<lparr>ram := cpu_physical_memory_write
                            (cpu_physical_memory_write (ram s) (tcb_buff (read_tcb (ram s) val))
                               (map buf [0..<nat sz]))
                            val
                            (tcb_bytes ((read_tcb (ram s) val)
                               \<lparr>tcb_length := word_of_int sz,
                                tcb_mode := rx_mode (tcb_mode (read_tcb (ram s) val))
                                              (tcb_next (read_tcb (ram s) val)) sz\<rparr>))\<rparr>))"
  using assms
  by (simp add: ar7_nic_receive_def Let_def rx_statistics_other cpmac_update_frame rx_mode_def)
    (simp add: cpmac_def cpmac_update_def)

lemma ar7_irq_frame:
  "ram (ar7_irq n l s) = ram s \<and> cpmac index (ar7_irq n l s) = cpmac index s \<and>
   sent (ar7_irq n l s) = sent s \<and> intmask (ar7_irq n l s) = intmask s"
  by (simp add: ar7_irq_def cpu_interrupt_def cpu_reset_interrupt_def Let_def cpmac_def)

lemma rx_deliver_descriptor:
  assumes "reg_read (cpmac index s) CPMAC_RX0_HDP = val" and "val \<noteq> 0"
    and "tcb_mode (read_tcb (ram s) val) AND CB_OWNERSHIP_BIT \<noteq> 0"
  shows "read_tcb (ram (ar7_nic_receive index buf sz s)) val =
           (read_tcb (ram s) val)
             \<lparr>tcb_length := word_of_int sz,
              tcb_mode := rx_mode (tcb_mode (read_tcb (ram s) val)) (tcb_next (read_tcb (ram s) val)) sz\<rparr>"
  by (simp add: nic_receive_deliver [OF assms] ar7_irq_frame cpmac_update_frame read_tcb_write)

text \<open>
  Claim C6, as the code has it.  Let a frame of size \<open>sz\<close> be delivered while RX0_HDP
  holds \<open>val \<noteq> 0\<close> and the descriptor \<open>rcb\<close> at \<open>val\<close> has OWNERSHIP set.  Then the
  payload is written to guest memory at the descriptor's \<open>buff\<close> and the descriptor is
  written back after it: read again, the descriptor has its \<open>next\<close> and \<open>buff\<close>,
  length \<open>sz\<close>, and the mode \<open>rx_mode\<close>, which is the mode it had with OWNERSHIP cleared
  and \<open>SOF | EOF | (sz & 0xFFFF)\<close> OR-ed in (plus EOQ when \<open>next\<close> is 0).  The bits the
  mode had besides OWNERSHIP stay, so the mode is \<open>SOF | EOF | (sz & 0xFFFF)\<close> (plus
  EOQ) when it was OWNERSHIP alone before.  The \<open>sz\<close> payload bytes read back from
  \<open>buff\<close> when the buffer lies clear of the descriptor's 16 bytes.  RX0_HDP then holds
  the descriptor's \<open>next\<close>, MAC_IN_VECTOR has RX_INT_OR OR-ed in, and the CPMAC interrupt
  line of the instance is asserted: the state is the one \<open>ar7_irq\<close> returns for that
  line and level 1.
\<close>

theorem rx_deliver:
  fixes index buf sz s val
  defines "s' \<equiv> ar7_nic_receive index buf sz s"
    and "rcb \<equiv> read_tcb (ram s) val"
  assumes "reg_read (cpmac index s) CPMAC_RX0_HDP = val" and "val \<noteq> 0"
    and "tcb_mode rcb AND CB_OWNERSHIP_BIT \<noteq> 0"
  shows "read_tcb (ram s') val =
           rcb\<lparr>tcb_length := word_of_int sz, tcb_mode := rx_mode (tcb_mode rcb) (tcb_next rcb) sz\<rparr> \<and>
         rx_mode (tcb_mode rcb) (tcb_next rcb) sz AND CB_OWNERSHIP_BIT = 0 \<and>
         (tcb_mode rcb = CB_OWNERSHIP_BIT \<longrightarrow>
            rx_mode (tcb_mode rcb) (tcb_next rcb) sz =
              (if tcb_next rcb = 0
               then CB_SOF_BIT OR CB_EOF_BIT OR (word_of_int sz AND CB_SIZE_MASK) OR CB_EOQ_BIT
               else CB_SOF_BIT OR CB_EOF_BIT OR (word_of_int sz AND CB_SIZE_MASK))) \<and>
         (16 \<le> unat (tcb_buff rcb - val) \<and> unat (tcb_buff rcb - val) + nat sz \<le> 2 ^ 32 \<longrightarrow>
            cpu_physical_memory_read (ram s') (tcb_buff rcb) (nat sz) = map buf [0..<nat sz]) \<and>
         reg_read (cpmac index s') CPMAC_RX0_HDP = tcb_next rcb \<and>
         reg_read (cpmac index s') CPMAC_MAC_IN_VECTOR =
           reg_read (cpmac index s) CPMAC_MAC_IN_VECTOR OR MAC_IN_VECTOR_RX_INT_OR \<and>
         s' = ar7_irq (cpmac_interrupt index) 1 (cpmac_update index (cpmac index s') (s\<lparr>ram := ram s'\<rparr>))"
proof -
  let ?d = "rcb\<lparr>tcb_length := word_of_int sz, tcb_mode := rx_mode (tcb_mode rcb) (tcb_next rcb) sz\<rparr>"
  let ?m1 = "cpu_physical_memory_write (ram s) (tcb_buff rcb) (map buf [0..<nat sz])"
  let ?m2 = "cpu_physical_memory_write ?m1 val (tcb_bytes ?d)"
  let ?c = "reg_set (reg_write (rx_statistics buf sz (cpmac index s)) CPMAC_RX0_HDP (tcb_next rcb))
              CPMAC_MAC_IN_VECTOR MAC_IN_VECTOR_RX_INT_OR"
  have e: "s' = ar7_irq (cpmac_interrupt index) 1 (cpmac_update index ?c (s\<lparr>ram := ?m2\<rparr>))"
    unfolding s'_def rcb_def by (rule nic_receive_deliver) (use assms in \<open>simp_all add: rcb_def\<close>)
  have ram: "ram s' = ?m2"
    by (simp add: e ar7_irq_frame cpmac_update_frame)
  have bank: "cpmac index s' = ?c"
    by (simp add: e ar7_irq_frame cpmac_cpmac_update)
  have 1: "read_tcb (ram s') val = ?d"
    unfolding s'_def rcb_def by (rule rx_deliver_descriptor) (use assms in \<open>simp_all add: rcb_def\<close>)
  have 4: "cpu_physical_memory_read (ram s') (tcb_buff rcb) (nat sz) = map buf [0..<nat sz]"
    if d: "16 \<le> unat (tcb_buff rcb - val)" "unat (tcb_buff rcb - val) + nat sz \<le> 2 ^ 32"
  proof (rule nth_equalityI)
    show "length (cpu_physical_memory_read (ram s') (tcb_buff rcb) (nat sz)) = length (map buf [0..<nat sz])"
      by (simp add: cpu_physical_memory_read_def)
  next
    fix i assume "i < length (cpu_physical_memory_read (ram s') (tcb_buff rcb) (nat sz))"
    then have i: "i < nat sz" by (simp add: cpu_physical_memory_read_def)
    have "?m2 (tcb_buff rcb + of_nat i) = ?m1 (tcb_buff rcb + of_nat i)"
    proof (rule write_outside)
      fix j assume "j < length (tcb_bytes ?d)"
      then have "j < 16" by (simp add: length_tcb_bytes)
      from ranges_disjoint [OF d i this] show "tcb_buff rcb + of_nat i \<noteq> val + of_nat j" .
    qed
    also have "\<dots> = map buf [0..<nat sz] ! i"
      using write_inside [of "map buf [0..<nat sz]" i "ram s" "tcb_buff rcb"] d i by simp
    finally show "cpu_physical_memory_read (ram s') (tcb_buff rcb) (nat sz) ! i = map buf [0..<nat sz] ! i"
      using i by (simp add: cpu_physical_memory_read_def ram)
  qed
  have 5: "reg_read (cpmac index s') CPMAC_RX0_HDP = tcb_next rcb"
    by (simp add: bank reg_read_set_other reg_read_write_same)
  have 6: "reg_read (cpmac index s') CPMAC_MAC_IN_VECTOR =
           reg_read (cpmac index s) CPMAC_MAC_IN_VECTOR OR MAC_IN_VECTOR_RX_INT_OR"
    by (simp add: bank reg_read_set_same reg_read_write_other rx_statistics_other)
  have 7: "s' = ar7_irq (cpmac_interrupt index) 1 (cpmac_update index (cpmac index s') (s\<lparr>ram := ram s'\<rparr>))"
    unfolding ram bank by (rule e)
  from 1 rx_mode_not_owned rx_mode_fresh 4 5 6 7 show ?thesis by simp
qed

text \<open>
  A receive set-up for concrete runs: line 27 enabled, RX0_HDP of CPMAC0 pointing at a
  device-owned descriptor at \<open>0x1000\<close> whose buffer of 1514 bytes is at \<open>0x2000\<close>
  and whose mode carries the buffer size in its low half, as its length field does.
\<close>

definition rx_example :: avalanche_t where
  "rx_example =
     av_init\<lparr>intmask := (\<lambda>_. 0)(0 := 0x00080000),
             cpmac0 := reg_write (\<lambda>_. 0) CPMAC_RX0_HDP 0x1000,
             ram := cpu_physical_memory_write (\<lambda>_. 0) 0x1000
                      (tcb_bytes \<lparr>tcb_next = 0, tcb_buff = 0x2000, tcb_length = 0x5ea,
                                  tcb_mode = 0x200005ea\<rparr>)\<rparr>"

lemma rx_example_facts:
  "reg_read (cpmac 0 rx_example) CPMAC_RX0_HDP = 0x1000"
  "read_tcb (ram rx_example) 0x1000 =
     \<lparr>tcb_next = 0, tcb_buff = 0x2000, tcb_length = 0x5ea, tcb_mode = 0x200005ea\<rparr>"
  "reg_read (cpmac 0 rx_example) CPMAC_MAC_IN_VECTOR = 0"
  "intmask rx_example 0 = 0x00080000"
  by (simp_all add: rx_example_def cpmac_def av_init_def reg_read_write_same read_tcb_write
      reg_read_write_other) (simp add: reg_read_def le32_to_cpu_def)

lemma rx_example_mode: "rx_mode 0x200005ea 0 1024 = 0xD00005EA"
  by (simp add: rx_mode_def CB_OWNERSHIP_BIT_def CB_SIZE_MASK_def CB_SOF_BIT_def CB_EOF_BIT_def CB_EOQ_BIT_def)

theorem rx_deliver_witness:
  "read_tcb (ram (ar7_nic_receive 0 (\<lambda>k. of_nat k) 1024 rx_example)) 0x1000 =
     \<lparr>tcb_next = 0, tcb_buff = 0x2000, tcb_length = 1024, tcb_mode = 0xD00005EA\<rparr> \<and>
   cpu_physical_memory_read (ram (ar7_nic_receive 0 (\<lambda>k. of_nat k) 1024 rx_example)) 0x2000 1024 =
     map (\<lambda>k. of_nat k) [0..<1024] \<and>
   reg_read (cpmac 0 (ar7_nic_receive 0 (\<lambda>k. of_nat k) 1024 rx_example)) CPMAC_RX0_HDP = 0 \<and>
   reg_read (cpmac 0 (ar7_nic_receive 0 (\<lambda>k. of_nat k) 1024 rx_example)) CPMAC_MAC_IN_VECTOR = 0x20000 \<and>
   hw_irq0 (ar7_nic_receive 0 (\<lambda>k. of_nat k) 1024 rx_example)"
proof -
  let ?s' = "ar7_nic_receive 0 (\<lambda>k. of_nat k) 1024 rx_example"
  have own: "tcb_mode (read_tcb (ram rx_example) 0x1000) AND CB_OWNERSHIP_BIT \<noteq> 0"
    by (simp add: rx_example_facts CB_OWNERSHIP_BIT_def)
  have ne: "(0x1000 :: 32 word) \<noteq> 0" by simp
  note r = rx_deliver [OF rx_example_facts(1) ne own, of "\<lambda>k. of_nat k" 1024]
  have irq: "hw_irq0 ?s'"
  proof -
    have h: "hw_irq0 (ar7_irq 27 1 (cpmac_update 0 c (rx_example\<lparr>ram := m\<rparr>)))" for c m
      by (simp add: ar7_irq_def cpu_interrupt_def cpmac_update_def rx_example_facts)
    from r have e: "?s' = ar7_irq 27 1 (cpmac_update 0 (cpmac 0 ?s') (rx_example\<lparr>ram := ram ?s'\<rparr>))"
      by (simp add: cpmac_interrupt_def)
    show ?thesis by (subst e) (rule h)
  qed
  from r irq rx_example_facts show ?thesis
    by (simp add: rx_example_mode)
qed

text \<open>
  The claim with a mode equal to \<open>SOF | EOF | (s & 0xFFFF)\<close> fails on a descriptor
  whose mode carries the buffer size 1514 next to OWNERSHIP: after a frame of 1024 bytes
  the low half of the mode is \<open>0x5EA\<close>, not \<open>0x400\<close>.
\<close>

theorem rx_deliver_counterexample:
  "reg_read (cpmac 0 rx_example) CPMAC_RX0_HDP = 0x1000 \<and>
   tcb_mode (read_tcb (ram rx_example) 0x1000) AND CB_OWNERSHIP_BIT \<noteq> 0 \<and>
   tcb_next (read_tcb (ram rx_example) 0x1000) = 0 \<and>
   tcb_mode (read_tcb (ram (ar7_nic_receive 0 (\<lambda>k. of_nat k) 1024 rx_example)) 0x1000) = 0xD00005EA \<and>
   tcb_mode (read_tcb (ram (ar7_nic_receive 0 (\<lambda>k. of_nat k) 1024 rx_example)) 0x1000) \<noteq>
     CB_SOF_BIT OR CB_EOF_BIT OR (word_of_int 1024 AND CB_SIZE_MASK) OR CB_EOQ_BIT"
proof -
  have own: "tcb_mode (read_tcb (ram rx_example) 0x1000) AND CB_OWNERSHIP_BIT \<noteq> 0"
    by (simp add: rx_example_facts CB_OWNERSHIP_BIT_def)
  have ne: "(0x1000 :: 32 word) \<noteq> 0" by simp
  from rx_deliver_descriptor [OF rx_example_facts(1) ne own, of "\<lambda>k. of_nat k" 1024] own
    rx_example_facts
  show ?thesis
    by (simp add: rx_example_mode CB_SIZE_MASK_def CB_SOF_BIT_def CB_EOF_BIT_def CB_EOQ_BIT_def)
qed

end
